theory Spec2Isabelle
  imports Main
begin

section \<open>Data model\<close>

text \<open>
  The entities of \<^verbatim>\<open>sync/signals.py\<close>. A primary key is the string that
  \<^verbatim>\<open>str(instance.pk)\<close> gives; the handlers use a key in no other form.
\<close>

type_synonym pk = string

datatype source_type =
  SOURCE_TYPE_YOUTUBE_CHANNEL | SOURCE_TYPE_YOUTUBE_CHANNEL_ID | SOURCE_TYPE_YOUTUBE_PLAYLIST

record source =
  s_pk :: pk
  s_name :: string
  source_type :: source_type
  index_schedule :: int
  copy_channel_images :: bool
  download_media :: bool
  delete_files_on_disk :: bool
  has_failed :: bool

text \<open>
  A Media instance as a handler receives it. \<open>source\<close> is the related Source object that
  \<^verbatim>\<open>instance.source\<close> yields. \<open>metadata\<close>, \<open>media_file\<close> and \<open>thumb\<close> are
  nullable; a file reference is the path of the file.
\<close>

record media =
  m_pk :: pk
  m_name :: string
  url :: string
  source :: source
  metadata :: "string option"
  skip :: bool
  manual_skip :: bool
  can_download :: bool
  downloaded :: bool
  media_file :: "string option"
  thumb :: "string option"

record mediaserver =
  ms_pk :: pk
  ms_str :: string

text \<open>A pending background job: the name of its function, its positional arguments, and
  the scheduling options the handlers pass.\<close>

record task =
  task_name :: string
  args :: "string list"
  priority :: int
  queue :: "string option"
  repeat :: int
  verbose_name :: string

text \<open>
  What a handler does to its collaborators, in the order it does it: a row written, a
  command issued to the task registry, a file deleted. The list is a record of calls; no
  handler reads it.
\<close>

datatype event =
  Persist_media media
  | Persist_source source
  | Enqueue task bool
  | Cancel string "string list"
  | Delete_file string

record world =
  sources :: "pk \<rightharpoonup> source"
  medias :: "pk \<rightharpoonup> media"
  mediaservers :: "mediaserver list"
  tasks :: "task list"
  files :: "string list"
  media_post_save_connected :: bool
  trace :: "event list"

text \<open>The object \<^verbatim>\<open>map_task_to_instance\<close> resolves a finished job to.\<close>

datatype resolved = Source_obj source | Media_obj media | No_obj

text \<open>
  The collaborators whose code is outside \<^verbatim>\<open>signals.py\<close> and whose verdicts the
  handlers only consult: the filter engine's verdict, \<^verbatim>\<open>Media.get_format_str\<close>,
  the \<^verbatim>\<open>Media.thumbnail\<close> property (the thumbnail URL the metadata yields) and
  \<^verbatim>\<open>map_task_to_instance\<close>.
\<close>

record env =
  should_skip :: "media \<Rightarrow> bool"
  get_format_str :: "media \<Rightarrow> string option"
  thumbnail :: "media \<Rightarrow> string option"
  map_task_to_instance :: "world \<Rightarrow> task \<Rightarrow> resolved"

text \<open>Python's truth value of a nullable string: \<^verbatim>\<open>None\<close> and the empty string are false.\<close>

definition truthy :: "string option \<Rightarrow> bool" where
  "truthy v = (case v of None \<Rightarrow> False | Some s \<Rightarrow> s \<noteq> [])"

definition log_event :: "event \<Rightarrow> world \<Rightarrow> world" where
  "log_event ev w = w\<lparr>trace := trace w @ [ev]\<rparr>"

section \<open>Task registry\<close>

definition same_key :: "string \<Rightarrow> string list \<Rightarrow> task \<Rightarrow> bool" where
  "same_key n as t = (task_name t = n \<and> args t = as)"

definition pending :: "world \<Rightarrow> string \<Rightarrow> string list \<Rightarrow> task list" where
  "pending w n as = filter (same_key n as) (tasks w)"

text \<open>
  Modelled from the spec: the task registry (background_task and \<^verbatim>\<open>sync/tasks.py\<close> are
  not part of the sources at hand). A job is addressed by its kind and arguments; cancelling
  removes the pending entries of the key.
\<close>

definition cancel :: "string \<Rightarrow> string list \<Rightarrow> world \<Rightarrow> world" where
  "cancel n as w =
     log_event (Cancel n as) (w\<lparr>tasks := filter (\<lambda>t. \<not> same_key n as t) (tasks w)\<rparr>)"

text \<open>
  Modelled from the spec: enqueueing with \<^verbatim>\<open>remove_existing_tasks=True\<close> supersedes
  every pending job of the same key, so that exactly one is pending afterwards; without it
  the job is added.
\<close>

definition enqueue :: "task \<Rightarrow> bool \<Rightarrow> world \<Rightarrow> world" where
  "enqueue t remove_existing_tasks w =
     log_event (Enqueue t remove_existing_tasks)
       (w\<lparr>tasks := (if remove_existing_tasks
                     then filter (\<lambda>x. \<not> same_key (task_name t) (args t) x) (tasks w)
                     else tasks w) @ [t]\<rparr>)"

text \<open>
  Modelled from the spec: \<^verbatim>\<open>delete_task_by_source\<close> and \<^verbatim>\<open>delete_task_by_media\<close> of
  \<^verbatim>\<open>sync/tasks.py\<close> cancel the pending job of a kind that is keyed by the source id, or by
  the arguments given.
\<close>

definition delete_task_by_source :: "string \<Rightarrow> pk \<Rightarrow> world \<Rightarrow> world" where
  "delete_task_by_source n source_id w = cancel n [source_id] w"

definition delete_task_by_media :: "string \<Rightarrow> string list \<Rightarrow> world \<Rightarrow> world" where
  "delete_task_by_media n as w = cancel n as w"

text \<open>Modelled from the spec: \<^verbatim>\<open>exists_pending\<close> for the metadata job of a Media item.\<close>

definition get_media_metadata_task :: "world \<Rightarrow> pk \<Rightarrow> bool" where
  "get_media_metadata_task w media_id =
     (pending w ''sync.tasks.download_media_metadata'' [media_id] \<noteq> [])"

text \<open>\<^verbatim>\<open>verbose_name.format(x)\<close> for the templates of the handlers, which all end in \<^verbatim>\<open>"{}"\<close>.\<close>

definition fmt :: "string \<Rightarrow> string \<Rightarrow> string" where
  "fmt prefix x = prefix @ [CHR 0x22] @ x @ [CHR 0x22]"

text \<open>
  Modelled from the spec: a task function of \<^verbatim>\<open>sync/tasks.py\<close>, when a handler calls it,
  enqueues a job of its kind with the arguments and the options of the call (priority, queue,
  repeat, verbose name, \<^verbatim>\<open>remove_existing_tasks\<close>).
\<close>

definition index_source_task :: "pk \<Rightarrow> int \<Rightarrow> string \<Rightarrow> int \<Rightarrow> string \<Rightarrow> world \<Rightarrow> world" where
  "index_source_task a rep q prio vn w =
     enqueue \<lparr>task_name = ''sync.tasks.index_source_task'', args = [a], priority = prio,
              queue = Some q, repeat = rep, verbose_name = vn\<rparr> True w"

definition download_media_metadata :: "pk \<Rightarrow> int \<Rightarrow> string \<Rightarrow> world \<Rightarrow> world" where
  "download_media_metadata a prio vn w =
     enqueue \<lparr>task_name = ''sync.tasks.download_media_metadata'', args = [a], priority = prio,
              queue = None, repeat = 0, verbose_name = vn\<rparr> True w"

definition download_media_thumbnail :: "pk \<Rightarrow> string \<Rightarrow> string \<Rightarrow> int \<Rightarrow> string \<Rightarrow> world \<Rightarrow> world" where
  "download_media_thumbnail a u q prio vn w =
     enqueue \<lparr>task_name = ''sync.tasks.download_media_thumbnail'', args = [a, u], priority = prio,
              queue = Some q, repeat = 0, verbose_name = vn\<rparr> True w"

definition download_media_task :: "pk \<Rightarrow> string \<Rightarrow> int \<Rightarrow> string \<Rightarrow> world \<Rightarrow> world" where
  "download_media_task a q prio vn w =
     enqueue \<lparr>task_name = ''sync.tasks.download_media'', args = [a], priority = prio,
              queue = Some q, repeat = 0, verbose_name = vn\<rparr> True w"

section \<open>Media: the after-save rule\<close>

text \<open>
  Modelled from the spec: the properties \<^verbatim>\<open>thumb_file_exists\<close> and
  \<^verbatim>\<open>media_file_exists\<close> of the Media model (\<^verbatim>\<open>sync/models.py\<close> is not part of the
  sources at hand): the reference is set and the file it names is on disk.
\<close>

definition thumb_file_exists :: "world \<Rightarrow> media \<Rightarrow> bool" where
  "thumb_file_exists w m = (case thumb m of None \<Rightarrow> False | Some p \<Rightarrow> p \<noteq> [] \<and> p \<in> set (files w))"

definition media_file_exists :: "world \<Rightarrow> media \<Rightarrow> bool" where
  "media_file_exists w m =
     (case media_file m of None \<Rightarrow> False | Some p \<Rightarrow> p \<noteq> [] \<and> p \<in> set (files w))"

text \<open>
  Modelled from the spec: \<^verbatim>\<open>filter_media\<close> (\<^verbatim>\<open>sync/filtering.py\<close> is not part of the
  sources at hand) asks the filter engine whether the item should be skipped, updates
  \<open>skip\<close> on the instance if the verdict differs from the stored value, and tells whether it did.
\<close>

definition filter_media :: "env \<Rightarrow> media \<Rightarrow> media \<times> bool" where
  "filter_media e inst =
     (let v = should_skip e inst in if skip inst \<noteq> v then (inst\<lparr>skip := v\<rparr>, True) else (inst, False))"

text \<open>Writing the row of a Media instance.\<close>

definition persist_media :: "world \<Rightarrow> media \<Rightarrow> world" where
  "persist_media w m = log_event (Persist_media m) (w\<lparr>medias := (medias w)(m_pk m \<mapsto> m)\<rparr>)"

definition post_save_disconnect :: "world \<Rightarrow> world" where
  "post_save_disconnect w = w\<lparr>media_post_save_connected := False\<rparr>"

definition post_save_connect :: "world \<Rightarrow> world" where
  "post_save_connect w = w\<lparr>media_post_save_connected := True\<rparr>"

text \<open>Lines 120-121: the skip flag is recomputed for an item that is not downloaded and has
  metadata.\<close>

definition recompute_skip :: "env \<Rightarrow> media \<Rightarrow> media \<times> bool" where
  "recompute_skip e inst =
     (if \<not> downloaded inst \<and> truthy (metadata inst) then filter_media e inst else (inst, False))"

text \<open>Lines 125-133: the \<open>can_download\<close> flag.\<close>

definition recompute_can_download :: "env \<Rightarrow> media \<Rightarrow> media \<times> bool" where
  "recompute_can_download e inst =
     (if truthy (metadata inst) then
        (if truthy (get_format_str e inst) then
           (if \<not> can_download inst then (inst\<lparr>can_download := True\<rparr>, True) else (inst, False))
         else
           (if can_download inst then (inst\<lparr>can_download := False\<rparr>, True) else (inst, False)))
      else (inst, False))"

text \<open>
  Lines 135-138: the corrective save. The receiver is disconnected, the instance is saved,
  the receiver is connected again. No other receiver of this file listens to a Media save,
  so the save with the receiver disconnected writes the row and nothing else.
\<close>

definition corrective_save :: "bool \<Rightarrow> world \<Rightarrow> media \<Rightarrow> world" where
  "corrective_save changed w inst =
     (if changed then post_save_connect (persist_media (post_save_disconnect w) inst) else w)"

text \<open>Lines 140-148.\<close>

definition schedule_metadata :: "world \<Rightarrow> media \<Rightarrow> world" where
  "schedule_metadata w inst =
     (if \<not> truthy (metadata inst) \<and> \<not> skip inst \<and> \<not> get_media_metadata_task w (m_pk inst)
      then download_media_metadata (m_pk inst) 5
             (fmt ''Downloading metadata for '' (m_pk inst)) w
      else w)"

text \<open>Lines 150-165.\<close>

definition normalize_thumb :: "world \<Rightarrow> media \<Rightarrow> media" where
  "normalize_thumb w inst = (if \<not> thumb_file_exists w inst then inst\<lparr>thumb := None\<rparr> else inst)"

definition schedule_thumbnail :: "env \<Rightarrow> world \<Rightarrow> media \<Rightarrow> world" where
  "schedule_thumbnail e w inst =
     (if \<not> truthy (thumb inst) \<and> \<not> skip inst then
        (case thumbnail e inst of
           None \<Rightarrow> w
         | Some thumbnail_url \<Rightarrow>
             if thumbnail_url \<noteq> [] then
               download_media_thumbnail (m_pk inst) thumbnail_url (s_pk (source inst)) 10
                 (fmt ''Downloading thumbnail for '' (m_name inst)) w
             else w)
      else w)"

text \<open>Lines 167-180.\<close>

definition normalize_media_file :: "world \<Rightarrow> media \<Rightarrow> media" where
  "normalize_media_file w inst =
     (if \<not> media_file_exists w inst then inst\<lparr>downloaded := False, media_file := None\<rparr> else inst)"

definition schedule_download :: "world \<Rightarrow> media \<Rightarrow> world" where
  "schedule_download w inst =
     (if \<not> downloaded inst \<and> can_download inst \<and> \<not> skip inst \<and> download_media (source inst) then
        download_media_task (m_pk inst) (s_pk (source inst)) 15
          (fmt ''Downloading media for '' (m_name inst))
          (delete_task_by_media ''sync.tasks.download_media'' [m_pk inst] w)
      else w)"

text \<open>\<^verbatim>\<open>media_post_save(sender, instance, created)\<close>: the world and the instance, both as
  the handler leaves them.\<close>

definition media_post_save :: "env \<Rightarrow> bool \<Rightarrow> world \<Rightarrow> media \<Rightarrow> world \<times> media" where
  "media_post_save e created w inst =
     (if manual_skip inst then (w, inst)
      else
        let (i1, skip_changed) = recompute_skip e inst;
            (i2, can_download_changed) = recompute_can_download e i1;
            w1 = corrective_save (skip_changed \<or> can_download_changed) w i2;
            w2 = schedule_metadata w1 i2;
            i3 = normalize_thumb w2 i2;
            w3 = schedule_thumbnail e w2 i3;
            i4 = normalize_media_file w3 i3;
            w4 = schedule_download w3 i4
        in (w4, i4))"

text \<open>
  Django's \<^verbatim>\<open>Model.save\<close> for a Media instance, with the receivers of this file: the
  row is written, then \<^verbatim>\<open>post_save\<close> is sent, which runs \<open>media_post_save\<close> when it
  is connected. \<open>created\<close> tells whether the row is new.
\<close>

definition Media_save :: "env \<Rightarrow> world \<Rightarrow> media \<Rightarrow> world \<times> media" where
  "Media_save e w inst =
     (let created = (medias w (m_pk inst) = None);
          w1 = persist_media w inst
      in if media_post_save_connected w1 then media_post_save e created w1 inst else (w1, inst))"

section \<open>Source: the before-save and after-save rules\<close>

definition source_pre_save :: "world \<Rightarrow> source \<Rightarrow> world" where
  "source_pre_save w inst =
     (case sources w (s_pk inst) of
        None \<Rightarrow> w
      | Some existing_source \<Rightarrow>
          if index_schedule existing_source \<noteq> index_schedule inst then
            index_source_task (s_pk inst) (index_schedule inst) (s_pk inst) 5
              (fmt ''Index media from source '' (s_name inst))
              (delete_task_by_source ''sync.tasks.index_source_task'' (s_pk inst) w)
          else w)"

definition check_source_directory_exists :: "pk \<Rightarrow> int \<Rightarrow> string \<Rightarrow> world \<Rightarrow> world" where
  "check_source_directory_exists a prio vn w =
     enqueue \<lparr>task_name = ''sync.tasks.check_source_directory_exists'', args = [a],
              priority = prio, queue = None, repeat = 0, verbose_name = vn\<rparr> False w"

definition download_source_images :: "pk \<Rightarrow> int \<Rightarrow> string \<Rightarrow> world \<Rightarrow> world" where
  "download_source_images a prio vn w =
     enqueue \<lparr>task_name = ''sync.tasks.download_source_images'', args = [a],
              priority = prio, queue = None, repeat = 0, verbose_name = vn\<rparr> False w"

definition save_all_media_for_source :: "pk \<Rightarrow> int \<Rightarrow> string \<Rightarrow> world \<Rightarrow> world" where
  "save_all_media_for_source a prio vn w =
     enqueue \<lparr>task_name = ''sync.tasks.save_all_media_for_source'', args = [a],
              priority = prio, queue = None, repeat = 0, verbose_name = vn\<rparr> True w"

definition source_post_save :: "world \<Rightarrow> source \<Rightarrow> bool \<Rightarrow> world" where
  "source_post_save w inst created =
     (let w3 =
        (if created then
           let vn = fmt ''Check download directory exists for source '' (s_name inst);
               w1 = check_source_directory_exists (s_pk inst) 0 vn w;
               w2 = (if source_type inst \<noteq> SOURCE_TYPE_YOUTUBE_PLAYLIST \<and> copy_channel_images inst
                     then download_source_images (s_pk inst) 0 vn w1 else w1)
           in if index_schedule inst > 0 then
                index_source_task (s_pk inst) (index_schedule inst) (s_pk inst) 5
                  (fmt ''Index media from source '' (s_name inst))
                  (delete_task_by_source ''sync.tasks.index_source_task'' (s_pk inst) w2)
              else w2
         else w)
      in save_all_media_for_source (s_pk inst) 0
           (fmt ''Checking all media for source '' (s_name inst)) w3)"

definition persist_source :: "world \<Rightarrow> source \<Rightarrow> world" where
  "persist_source w s = log_event (Persist_source s) (w\<lparr>sources := (sources w)(s_pk s \<mapsto> s)\<rparr>)"

text \<open>\<^verbatim>\<open>Model.save\<close> for a Source, with the receivers of this file around the write.\<close>

definition Source_save :: "world \<Rightarrow> source \<Rightarrow> world" where
  "Source_save w inst =
     (let w1 = source_pre_save w inst;
          created = (sources w1 (s_pk inst) = None)
      in source_post_save (persist_source w1 inst) inst created)"

section \<open>Permanent job failure\<close>

definition task_task_failed :: "env \<Rightarrow> world \<Rightarrow> task \<Rightarrow> world" where
  "task_task_failed e w completed_task =
     (case map_task_to_instance e w completed_task of
        Source_obj obj \<Rightarrow> Source_save w (obj\<lparr>has_failed := True\<rparr>)
      | Media_obj obj \<Rightarrow>
          if task_name completed_task = ''sync.tasks.download_media_metadata''
          then fst (Media_save e w (obj\<lparr>skip := True\<rparr>))
          else w
      | No_obj \<Rightarrow> w)"

section \<open>Paths and file name patterns\<close>

text \<open>
  \<^verbatim>\<open>os.path.splitext\<close> (POSIX): the extension starts at the last dot of the last
  component, unless only dots precede it there.
\<close>

definition splitext :: "string \<Rightarrow> string \<times> string" where
  "splitext p =
     (let b = rev (takeWhile (\<lambda>c. c \<noteq> CHR ''/'') (rev p));
          ext = rev (takeWhile (\<lambda>c. c \<noteq> CHR ''.'') (rev b));
          stem = take (length b - length ext - 1) b
      in if CHR ''.'' \<in> set b \<and> filter (\<lambda>c. c \<noteq> CHR ''.'') stem \<noteq> []
         then (take (length p - length ext - 1) p, drop (length p - length ext - 1) p)
         else (p, []))"

text \<open>
  \<^verbatim>\<open>glob.glob\<close> over the files on disk. A pattern is matched component by component; in
  a component \<^verbatim>\<open>*\<close> stands for any run of characters, \<^verbatim>\<open>?\<close> for one character and
  \<^verbatim>\<open>[seq]\<close> for one character of \<^verbatim>\<open>seq\<close> (\<^verbatim>\<open>[!seq]\<close> for one that is not), as
  \<^verbatim>\<open>fnmatch\<close> translates them; a bracket that is never closed is a plain character. A
  name that starts with a dot is matched only by a pattern component that starts with one.
\<close>

datatype pat_item = PStar | PAny | PClass bool "(char \<times> char) list" | PChar char

fun class_ranges :: "string \<Rightarrow> (char \<times> char) list" where
  "class_ranges [] = []"
| "class_ranges [a] = [(a, a)]"
| "class_ranges [a, b] = [(a, a), (b, b)]"
| "class_ranges (a # b # c # cs) =
     (if b = CHR ''-'' then (a, c) # class_ranges cs else (a, a) # class_ranges (b # c # cs))"

fun close_class :: "string \<Rightarrow> string \<Rightarrow> (string \<times> string) option" where
  "close_class acc [] = None"
| "close_class acc (c # cs) =
     (if c = CHR '']'' then Some (rev acc, cs) else close_class (c # acc) cs)"

text \<open>The class that opens a pattern, after its \<^verbatim>\<open>[\<close>: negation, members, and the rest of
  the pattern. A \<^verbatim>\<open>]\<close> right after the opening (or after \<^verbatim>\<open>!\<close>) is a member.\<close>

definition read_class :: "string \<Rightarrow> (bool \<times> string \<times> string) option" where
  "read_class r =
     (let neg = (case r of c # _ \<Rightarrow> c = CHR ''!'' | [] \<Rightarrow> False);
          r1 = (if neg then tl r else r);
          lit = (case r1 of c # _ \<Rightarrow> c = CHR '']'' | [] \<Rightarrow> False);
          r2 = (if lit then tl r1 else r1)
      in case close_class (if lit then '']'' else []) r2 of
           None \<Rightarrow> None
         | Some (body, rest) \<Rightarrow> Some (neg, body, rest))"

function translate :: "string \<Rightarrow> pat_item list" where
  "translate [] = []"
| "translate (c # cs) =
     (if c = CHR ''*'' then PStar # translate cs
      else if c = CHR ''?'' then PAny # translate cs
      else if c = CHR ''['' then
        (case read_class cs of
           None \<Rightarrow> PChar c # translate cs
         | Some (neg, body, rest) \<Rightarrow>
             if length rest < length (c # cs)
             then PClass neg (class_ranges body) # translate rest
             else [])
      else PChar c # translate cs)"
  by pat_completeness auto
termination
  by (relation "measure length") auto

definition in_class :: "(char \<times> char) list \<Rightarrow> char \<Rightarrow> bool" where
  "in_class rs c =
     (filter (\<lambda>(lo, hi). (of_char lo :: nat) \<le> of_char c \<and> (of_char c :: nat) \<le> of_char hi) rs \<noteq> [])"

fun pmatch :: "pat_item list \<Rightarrow> string \<Rightarrow> bool" where
  "pmatch [] s = (s = [])"
| "pmatch (PStar # ps) [] = pmatch ps []"
| "pmatch (PStar # ps) (c # s) = (pmatch ps (c # s) \<or> pmatch (PStar # ps) s)"
| "pmatch (PAny # ps) [] = False"
| "pmatch (PAny # ps) (c # s) = pmatch ps s"
| "pmatch (PClass neg rs # ps) [] = False"
| "pmatch (PClass neg rs # ps) (c # s) = ((in_class rs c \<noteq> neg) \<and> pmatch ps s)"
| "pmatch (PChar a # ps) [] = False"
| "pmatch (PChar a # ps) (c # s) = (a = c \<and> pmatch ps s)"

fun split_path :: "string \<Rightarrow> string \<Rightarrow> string list" where
  "split_path acc [] = [rev acc]"
| "split_path acc (c # cs) =
     (if c = CHR ''/'' then rev acc # split_path [] cs else split_path (c # acc) cs)"

definition has_magic :: "string \<Rightarrow> bool" where
  "has_magic s = (filter (\<lambda>c. c = CHR ''*'' \<or> c = CHR ''?'' \<or> c = CHR ''['') s \<noteq> [])"

definition ishidden :: "string \<Rightarrow> bool" where
  "ishidden n = (case n of [] \<Rightarrow> False | c # _ \<Rightarrow> c = CHR ''.'')"

definition component_match :: "string \<Rightarrow> string \<Rightarrow> bool" where
  "component_match pat n =
     (if has_magic pat then (ishidden pat \<or> \<not> ishidden n) \<and> pmatch (translate pat) n
      else pat = n)"

definition glob :: "string list \<Rightarrow> string \<Rightarrow> string list" where
  "glob fs pathname =
     filter (\<lambda>p. list_all2 component_match (split_path [] pathname) (split_path [] p)) fs"

section \<open>Media: the delete rules\<close>

text \<open>Modelled from the spec: \<^verbatim>\<open>delete_file\<close> of \<^verbatim>\<open>sync/utils.py\<close> removes the file
  from disk.\<close>

definition delete_file :: "string \<Rightarrow> world \<Rightarrow> world" where
  "delete_file f w = log_event (Delete_file f) (w\<lparr>files := filter (\<lambda>x. x \<noteq> f) (files w)\<rparr>)"

definition media_pre_delete :: "env \<Rightarrow> world \<Rightarrow> media \<Rightarrow> world" where
  "media_pre_delete e w inst =
     (let w1 = delete_task_by_media ''sync.tasks.download_media'' [m_pk inst] w;
          w2 = (case thumbnail e inst of
                  None \<Rightarrow> w1
                | Some thumbnail_url \<Rightarrow>
                    if thumbnail_url \<noteq> [] then
                      delete_task_by_media ''sync.tasks.download_media_thumbnail''
                        [m_pk inst, thumbnail_url] w1
                    else w1)
      in if delete_files_on_disk (source inst) \<and> (truthy (media_file inst) \<or> truthy (thumb inst)) then
           (case (if truthy (media_file inst) then media_file inst else thumb inst) of
              None \<Rightarrow> w2
            | Some filepath \<Rightarrow>
                let (barefilepath, fileext) = splitext filepath;
                    all_related_files = glob (files w2) (barefilepath @ ''.*'')
                in fold delete_file all_related_files w2)
         else w2)"

definition rescan_media_server :: "pk \<Rightarrow> int \<Rightarrow> string \<Rightarrow> world \<Rightarrow> world" where
  "rescan_media_server a prio vn w =
     enqueue \<lparr>task_name = ''sync.tasks.rescan_media_server'', args = [a],
              priority = prio, queue = None, repeat = 0, verbose_name = vn\<rparr> True w"

definition media_post_delete :: "world \<Rightarrow> media \<Rightarrow> world" where
  "media_post_delete w inst =
     fold (\<lambda>mediaserver.
            rescan_media_server (ms_pk mediaserver) 0
              (fmt ''Request media server rescan for '' (ms_str mediaserver)))
       (mediaservers w) w"

section \<open>Reading the record of calls\<close>

fun saved_media :: "event list \<Rightarrow> media list" where
  "saved_media [] = []"
| "saved_media (Persist_media m # es) = m # saved_media es"
| "saved_media (Persist_source s # es) = saved_media es"
| "saved_media (Enqueue t b # es) = saved_media es"
| "saved_media (Cancel n as # es) = saved_media es"
| "saved_media (Delete_file f # es) = saved_media es"

fun enqueued :: "event list \<Rightarrow> task list" where
  "enqueued [] = []"
| "enqueued (Persist_media m # es) = enqueued es"
| "enqueued (Persist_source s # es) = enqueued es"
| "enqueued (Enqueue t b # es) = t # enqueued es"
| "enqueued (Cancel n as # es) = enqueued es"
| "enqueued (Delete_file f # es) = enqueued es"

fun saved_sources :: "event list \<Rightarrow> source list" where
  "saved_sources [] = []"
| "saved_sources (Persist_media m # es) = saved_sources es"
| "saved_sources (Persist_source s # es) = s # saved_sources es"
| "saved_sources (Enqueue t b # es) = saved_sources es"
| "saved_sources (Cancel n as # es) = saved_sources es"
| "saved_sources (Delete_file f # es) = saved_sources es"

text \<open>The calls recorded in \<open>w'\<close> since \<open>w\<close>.\<close>

definition new_events :: "world \<Rightarrow> world \<Rightarrow> event list" where
  "new_events w w' = drop (length (trace w)) (trace w')"

text \<open>The jobs as the call sites of \<open>media_post_save\<close>, \<open>source_pre_save\<close> and
  \<open>media_post_delete\<close> build them.\<close>

definition metadata_job :: "media \<Rightarrow> task" where
  "metadata_job inst =
     \<lparr>task_name = ''sync.tasks.download_media_metadata'', args = [m_pk inst], priority = 5,
      queue = None, repeat = 0,
      verbose_name = fmt ''Downloading metadata for '' (m_pk inst)\<rparr>"

definition thumbnail_job :: "media \<Rightarrow> string \<Rightarrow> task" where
  "thumbnail_job inst u =
     \<lparr>task_name = ''sync.tasks.download_media_thumbnail'', args = [m_pk inst, u], priority = 10,
      queue = Some (s_pk (source inst)), repeat = 0,
      verbose_name = fmt ''Downloading thumbnail for '' (m_name inst)\<rparr>"

definition download_job :: "media \<Rightarrow> task" where
  "download_job inst =
     \<lparr>task_name = ''sync.tasks.download_media'', args = [m_pk inst], priority = 15,
      queue = Some (s_pk (source inst)), repeat = 0,
      verbose_name = fmt ''Downloading media for '' (m_name inst)\<rparr>"

definition index_job :: "source \<Rightarrow> task" where
  "index_job inst =
     \<lparr>task_name = ''sync.tasks.index_source_task'', args = [s_pk inst], priority = 5,
      queue = Some (s_pk inst), repeat = index_schedule inst,
      verbose_name = fmt ''Index media from source '' (s_name inst)\<rparr>"

definition rescan_job :: "mediaserver \<Rightarrow> task" where
  "rescan_job ms =
     \<lparr>task_name = ''sync.tasks.rescan_media_server'', args = [ms_pk ms], priority = 0,
      queue = None, repeat = 0,
      verbose_name = fmt ''Request media server rescan for '' (ms_str ms)\<rparr>"

text \<open>The instance after lines 116-133, whether the rule saves it, and the conditions under
  which the rule schedules each job.\<close>

definition recomputed :: "env \<Rightarrow> media \<Rightarrow> media" where
  "recomputed e inst = fst (recompute_can_download e (fst (recompute_skip e inst)))"

definition changed :: "env \<Rightarrow> media \<Rightarrow> bool" where
  "changed e inst =
     (snd (recompute_skip e inst) \<or> snd (recompute_can_download e (fst (recompute_skip e inst))))"

definition wants_metadata :: "world \<Rightarrow> media \<Rightarrow> bool" where
  "wants_metadata w inst =
     (\<not> truthy (metadata inst) \<and> \<not> skip inst \<and> \<not> get_media_metadata_task w (m_pk inst))"

definition wants_thumbnail :: "env \<Rightarrow> media \<Rightarrow> bool" where
  "wants_thumbnail e inst = (\<not> truthy (thumb inst) \<and> \<not> skip inst \<and> truthy (thumbnail e inst))"

definition wants_download :: "media \<Rightarrow> bool" where
  "wants_download inst =
     (\<not> downloaded inst \<and> can_download inst \<and> \<not> skip inst \<and> download_media (source inst))"

text \<open>The rule run \<open>n\<close> times in succession, each run on the world and the instance the
  run before it left.\<close>

fun media_post_save_times :: "env \<Rightarrow> nat \<Rightarrow> world \<times> media \<Rightarrow> world \<times> media" where
  "media_post_save_times e 0 s = s"
| "media_post_save_times e (Suc n) s =
     media_post_save_times e n (media_post_save e False (fst s) (snd s))"

text \<open>An instance with the fields that the after-save rule writes blanked: two instances
  with the same frame are the same item up to what the rule itself changes.\<close>

definition rule_frame :: "media \<Rightarrow> media" where
  "rule_frame m = m\<lparr>skip := False, can_download := False, downloaded := False,
                    media_file := None, thumb := None\<rparr>"

section \<open>Example inputs\<close>

definition src0 :: source where
  "src0 = \<lparr>s_pk = ''s1'', s_name = ''chan'', source_type = SOURCE_TYPE_YOUTUBE_CHANNEL,
           index_schedule = 3600, copy_channel_images = False, download_media = True,
           delete_files_on_disk = True, has_failed = False\<rparr>"

definition med0 :: media where
  "med0 = \<lparr>m_pk = ''m1'', m_name = ''clip'', url = ''https://example.org/v/1'', source = src0,
           metadata = None, skip = False, manual_skip = False, can_download = False,
           downloaded = False, media_file = None, thumb = None\<rparr>"

definition env0 :: env where
  "env0 = \<lparr>should_skip = (\<lambda>m. False), get_format_str = (\<lambda>m. Some ''best''),
           thumbnail = (\<lambda>m. None), map_task_to_instance = (\<lambda>w t. No_obj)\<rparr>"

definition world0 :: world where
  "world0 = \<lparr>sources = Map.empty, medias = Map.empty, mediaservers = [], tasks = [], files = [],
             media_post_save_connected = True, trace = []\<rparr>"

text \<open>An item marked as downloaded whose files are not on disk.\<close>

definition med_stale :: media where
  "med_stale = med0\<lparr>metadata := Some ''{}'', downloaded := True,
     media_file := Some ''/downloads/chan/clip.mp4'', thumb := Some ''/downloads/chan/clip.jpg''\<rparr>"

definition world_stale :: world where
  "world_stale = world0\<lparr>medias := [''m1'' \<mapsto> med_stale]\<rparr>"

text \<open>A persisted Source and the same Source about to be written with a new schedule.\<close>

definition world_src :: world where
  "world_src = world0\<lparr>sources := [''s1'' \<mapsto> src0]\<rparr>"

definition src_new :: source where
  "src_new = src0\<lparr>index_schedule := 7200\<rparr>"


text \<open>An item that is marked as downloaded and may be downloaded, with its file missing.\<close>

definition med_lost :: media where
  "med_lost = med_stale\<lparr>can_download := True\<rparr>"

definition world_lost :: world where
  "world_lost = world0\<lparr>medias := [''m1'' \<mapsto> med_lost]\<rparr>"


text \<open>A resolver that finds the target of a job by its first argument, among the Sources
  first and the Media items next.\<close>

definition env_resolve :: env where
  "env_resolve = env0\<lparr>map_task_to_instance :=
     (\<lambda>w t. case args t of
         [] \<Rightarrow> No_obj
       | k # _ \<Rightarrow> (case sources w k of
                     Some s \<Rightarrow> Source_obj s
                   | None \<Rightarrow> (case medias w k of Some m \<Rightarrow> Media_obj m | None \<Rightarrow> No_obj)))\<rparr>"

text \<open>The directory check of \<open>src0\<close>, as \<open>source_post_save\<close> enqueues it, and the metadata
  job of \<open>med0\<close>.\<close>

definition failed_check :: task where
  "failed_check = \<lparr>task_name = ''sync.tasks.check_source_directory_exists'', args = [''s1''],
     priority = 0, queue = None, repeat = 0,
     verbose_name = fmt ''Check download directory exists for source '' ''chan''\<rparr>"

definition failed_metadata :: task where
  "failed_metadata = metadata_job med0"

definition world_both :: world where
  "world_both = world0\<lparr>sources := [''s1'' \<mapsto> src0], medias := [''m1'' \<mapsto> med0]\<rparr>"

text \<open>Two items of the same Source: one with metadata whose \<open>can_download\<close> is stale, so
  that the rule saves it, and another one without metadata.\<close>

definition med_a :: media where
  "med_a = med0\<lparr>metadata := Some ''{}''\<rparr>"

definition med_b :: media where
  "med_b = med0\<lparr>m_pk := ''m2'', m_name := ''other''\<rparr>"

text \<open>A downloaded item whose file name has a bracketed part, with its sibling files on disk;
  and the same with a plain name.\<close>

definition med_brackets :: media where
  "med_brackets = med0\<lparr>metadata := Some ''{}'', downloaded := True, can_download := True,
     media_file := Some ''/downloads/chan/Song [Live].mp4''\<rparr>"

definition world_brackets :: world where
  "world_brackets = world0\<lparr>files :=
     [''/downloads/chan/Song [Live].mp4'', ''/downloads/chan/Song [Live].en.vtt'',
      ''/downloads/chan/Song [Live].jpg'']\<rparr>"

definition med_plain :: media where
  "med_plain = med0\<lparr>metadata := Some ''{}'', downloaded := True, can_download := True,
     media_file := Some ''/downloads/chan/Song.mp4''\<rparr>"

definition world_plain :: world where
  "world_plain = world0\<lparr>files :=
     [''/downloads/chan/Song.mp4'', ''/downloads/chan/Song.en.vtt'',
      ''/downloads/chan/Song.jpg'', ''/downloads/chan/Songs.mp4'']\<rparr>"

text \<open>A world that stores \<open>med_a\<close>, an item with metadata.\<close>

definition world_a :: world where
  "world_a = world0\<lparr>medias := [''m1'' \<mapsto> med_a]\<rparr>"

section \<open>Properties\<close>

subsection \<open>The collaborators' calls, field by field\<close>

lemma log_event_fields [simp]:
  "trace (log_event ev w) = trace w @ [ev]"
  "tasks (log_event ev w) = tasks w"
  "files (log_event ev w) = files w"
  "medias (log_event ev w) = medias w"
  "sources (log_event ev w) = sources w"
  "mediaservers (log_event ev w) = mediaservers w"
  "media_post_save_connected (log_event ev w) = media_post_save_connected w"
  by (simp_all add: log_event_def)

lemma cancel_fields [simp]:
  "trace (cancel n as w) = trace w @ [Cancel n as]"
  "tasks (cancel n as w) = filter (\<lambda>t. \<not> same_key n as t) (tasks w)"
  "files (cancel n as w) = files w"
  "medias (cancel n as w) = medias w"
  "sources (cancel n as w) = sources w"
  "mediaservers (cancel n as w) = mediaservers w"
  "media_post_save_connected (cancel n as w) = media_post_save_connected w"
  by (simp_all add: cancel_def)

lemma enqueue_fields [simp]:
  "trace (enqueue t b w) = trace w @ [Enqueue t b]"
  "tasks (enqueue t b w) =
     (if b then filter (\<lambda>x. \<not> same_key (task_name t) (args t) x) (tasks w) else tasks w) @ [t]"
  "files (enqueue t b w) = files w"
  "medias (enqueue t b w) = medias w"
  "sources (enqueue t b w) = sources w"
  "mediaservers (enqueue t b w) = mediaservers w"
  "media_post_save_connected (enqueue t b w) = media_post_save_connected w"
  by (simp_all add: enqueue_def)

lemma persist_media_fields [simp]:
  "trace (persist_media w m) = trace w @ [Persist_media m]"
  "tasks (persist_media w m) = tasks w"
  "files (persist_media w m) = files w"
  "medias (persist_media w m) = (medias w)(m_pk m \<mapsto> m)"
  "sources (persist_media w m) = sources w"
  "mediaservers (persist_media w m) = mediaservers w"
  "media_post_save_connected (persist_media w m) = media_post_save_connected w"
  by (simp_all add: persist_media_def)

lemma connect_fields [simp]:
  "trace (post_save_connect w) = trace w"
  "tasks (post_save_connect w) = tasks w"
  "files (post_save_connect w) = files w"
  "medias (post_save_connect w) = medias w"
  "sources (post_save_connect w) = sources w"
  "mediaservers (post_save_connect w) = mediaservers w"
  "media_post_save_connected (post_save_connect w)"
  by (simp_all add: post_save_connect_def)

lemma disconnect_fields [simp]:
  "trace (post_save_disconnect w) = trace w"
  "tasks (post_save_disconnect w) = tasks w"
  "files (post_save_disconnect w) = files w"
  "medias (post_save_disconnect w) = medias w"
  "sources (post_save_disconnect w) = sources w"
  "mediaservers (post_save_disconnect w) = mediaservers w"
  "\<not> media_post_save_connected (post_save_disconnect w)"
  by (simp_all add: post_save_disconnect_def)

lemma pending_enqueue:
  "pending (enqueue t True w) n as = (if same_key n as t then [t] else pending w n as)"
  by (auto simp: pending_def same_key_def intro: filter_False filter_cong)

lemma pending_cancel:
  "pending (cancel n' as' w) n as = (if n = n' \<and> as = as' then [] else pending w n as)"
  by (auto simp: pending_def same_key_def intro: filter_False filter_cong)

lemma saved_media_append [simp]: "saved_media (xs @ ys) = saved_media xs @ saved_media ys"
  by (induction xs rule: saved_media.induct) simp_all

lemma enqueued_append [simp]: "enqueued (xs @ ys) = enqueued xs @ enqueued ys"
  by (induction xs rule: enqueued.induct) simp_all

lemma new_events_append: "trace w' = trace w @ evs \<Longrightarrow> new_events w w' = evs"
  by (simp add: new_events_def)

lemma corrective_save_fields [simp]:
  "trace (corrective_save ch w i) = trace w @ (if ch then [Persist_media i] else [])"
  "tasks (corrective_save ch w i) = tasks w"
  "files (corrective_save ch w i) = files w"
  "medias (corrective_save ch w i) = (if ch then (medias w)(m_pk i \<mapsto> i) else medias w)"
  "media_post_save_connected (corrective_save ch w i) = (ch \<or> media_post_save_connected w)"
  by (simp_all add: corrective_save_def)

lemma schedule_metadata_fields [simp]:
  "trace (schedule_metadata w i) = trace w @
     (if \<not> truthy (metadata i) \<and> \<not> skip i \<and> \<not> get_media_metadata_task w (m_pk i)
      then [Enqueue (metadata_job i) True] else [])"
  "files (schedule_metadata w i) = files w"
  "medias (schedule_metadata w i) = medias w"
  "media_post_save_connected (schedule_metadata w i) = media_post_save_connected w"
  by (simp_all add: schedule_metadata_def download_media_metadata_def metadata_job_def)

lemma schedule_thumbnail_fields [simp]:
  "trace (schedule_thumbnail e w i) = trace w @
     (if \<not> truthy (thumb i) \<and> \<not> skip i \<and> truthy (thumbnail e i)
      then [Enqueue (thumbnail_job i (the (thumbnail e i))) True] else [])"
  "files (schedule_thumbnail e w i) = files w"
  "medias (schedule_thumbnail e w i) = medias w"
  "media_post_save_connected (schedule_thumbnail e w i) = media_post_save_connected w"
  by (simp_all add: schedule_thumbnail_def download_media_thumbnail_def thumbnail_job_def truthy_def
      split: option.splits)

lemma schedule_download_fields [simp]:
  "trace (schedule_download w i) = trace w @
     (if \<not> downloaded i \<and> can_download i \<and> \<not> skip i \<and> download_media (source i)
      then [Cancel ''sync.tasks.download_media'' [m_pk i], Enqueue (download_job i) True] else [])"
  "files (schedule_download w i) = files w"
  "medias (schedule_download w i) = medias w"
  "media_post_save_connected (schedule_download w i) = media_post_save_connected w"
  by (simp_all add: schedule_download_def download_media_task_def download_job_def
      delete_task_by_media_def)

lemma recompute_skip_eq:
  "recompute_skip e inst =
     (inst\<lparr>skip := (if \<not> downloaded inst \<and> truthy (metadata inst) then should_skip e inst else skip inst)\<rparr>,
      \<not> downloaded inst \<and> truthy (metadata inst) \<and> skip inst \<noteq> should_skip e inst)"
  by (auto simp: recompute_skip_def filter_media_def Let_def)

lemma recompute_can_download_eq:
  "recompute_can_download e inst =
     (inst\<lparr>can_download := (if truthy (metadata inst) then truthy (get_format_str e inst)
                             else can_download inst)\<rparr>,
      truthy (metadata inst) \<and> can_download inst \<noteq> truthy (get_format_str e inst))"
  by (auto simp: recompute_can_download_def)

lemma normalize_thumb_fields [simp]:
  "skip (normalize_thumb w i) = skip i"
  "can_download (normalize_thumb w i) = can_download i"
  "downloaded (normalize_thumb w i) = downloaded i"
  "media_file (normalize_thumb w i) = media_file i"
  "metadata (normalize_thumb w i) = metadata i"
  "manual_skip (normalize_thumb w i) = manual_skip i"
  "m_pk (normalize_thumb w i) = m_pk i"
  "m_name (normalize_thumb w i) = m_name i"
  "source (normalize_thumb w i) = source i"
  "thumb (normalize_thumb w i) = (if thumb_file_exists w i then thumb i else None)"
  by (simp_all add: normalize_thumb_def)

lemma normalize_media_file_fields [simp]:
  "skip (normalize_media_file w i) = skip i"
  "can_download (normalize_media_file w i) = can_download i"
  "downloaded (normalize_media_file w i) = (downloaded i \<and> media_file_exists w i)"
  "media_file (normalize_media_file w i) = (if media_file_exists w i then media_file i else None)"
  "metadata (normalize_media_file w i) = metadata i"
  "manual_skip (normalize_media_file w i) = manual_skip i"
  "m_pk (normalize_media_file w i) = m_pk i"
  "m_name (normalize_media_file w i) = m_name i"
  "source (normalize_media_file w i) = source i"
  "thumb (normalize_media_file w i) = thumb i"
  by (simp_all add: normalize_media_file_def)

lemma media_post_save_unfold:
  "\<not> manual_skip inst \<Longrightarrow>
   media_post_save e created w inst =
     (let i1 = fst (recompute_skip e inst);
          i2 = fst (recompute_can_download e i1);
          w1 = corrective_save (snd (recompute_skip e inst) \<or> snd (recompute_can_download e i1)) w i2;
          w2 = schedule_metadata w1 i2;
          i3 = normalize_thumb w2 i2;
          w3 = schedule_thumbnail e w2 i3;
          i4 = normalize_media_file w3 i3
      in (schedule_download w3 i4, i4))"
  by (simp add: media_post_save_def Let_def case_prod_beta)

lemma pending_cong: "tasks w' = tasks w \<Longrightarrow> pending w' n as = pending w n as"
  by (simp add: pending_def)

lemma get_media_metadata_task_cong:
  "tasks w' = tasks w \<Longrightarrow> get_media_metadata_task w' k = get_media_metadata_task w k"
  by (simp add: get_media_metadata_task_def pending_def)

lemma thumb_file_exists_cong: "files w' = files w \<Longrightarrow> thumb_file_exists w' i = thumb_file_exists w i"
  by (simp add: thumb_file_exists_def split: option.splits)

lemma media_file_exists_cong: "files w' = files w \<Longrightarrow> media_file_exists w' i = media_file_exists w i"
  by (simp add: media_file_exists_def split: option.splits)

lemma normalize_thumb_cong: "files w' = files w \<Longrightarrow> normalize_thumb w' i = normalize_thumb w i"
  using thumb_file_exists_cong [of w' w i] by (simp add: normalize_thumb_def)

lemma normalize_media_file_cong:
  "files w' = files w \<Longrightarrow> normalize_media_file w' i = normalize_media_file w i"
  using media_file_exists_cong [of w' w i] by (simp add: normalize_media_file_def)

lemma media_file_exists_normalize_thumb [simp]:
  "media_file_exists w (normalize_thumb w' i) = media_file_exists w i"
  by (simp add: media_file_exists_def)

lemma recomputed_fields [simp]:
  "m_pk (recomputed e inst) = m_pk inst"
  "m_name (recomputed e inst) = m_name inst"
  "source (recomputed e inst) = source inst"
  "metadata (recomputed e inst) = metadata inst"
  "manual_skip (recomputed e inst) = manual_skip inst"
  "downloaded (recomputed e inst) = downloaded inst"
  "media_file (recomputed e inst) = media_file inst"
  "thumb (recomputed e inst) = thumb inst"
  "skip (recomputed e inst) =
     (if \<not> downloaded inst \<and> truthy (metadata inst) then should_skip e inst else skip inst)"
  "can_download (recomputed e inst) =
     (if truthy (metadata inst) then truthy (get_format_str e (fst (recompute_skip e inst)))
      else can_download inst)"
  by (simp_all add: recomputed_def recompute_skip_eq recompute_can_download_eq)

lemma thumb_file_exists_recomputed [simp]:
  "thumb_file_exists w (recomputed e inst) = thumb_file_exists w inst"
  by (simp add: thumb_file_exists_def)

lemma media_file_exists_recomputed [simp]:
  "media_file_exists w (recomputed e inst) = media_file_exists w inst"
  by (simp add: media_file_exists_def)

lemma media_post_save_steps:
  assumes ms: "\<not> manual_skip inst"
  shows "media_post_save e created w inst =
     (schedule_download
        (schedule_thumbnail e
           (schedule_metadata (corrective_save (changed e inst) w (recomputed e inst))
              (recomputed e inst))
           (normalize_thumb w (recomputed e inst)))
        (normalize_media_file w (normalize_thumb w (recomputed e inst))),
      normalize_media_file w (normalize_thumb w (recomputed e inst)))"
proof -
  let ?i2 = "recomputed e inst"
  let ?w2 = "schedule_metadata (corrective_save (changed e inst) w ?i2) ?i2"
  let ?w3 = "schedule_thumbnail e ?w2 (normalize_thumb w ?i2)"
  have raw: "media_post_save e created w inst =
      (schedule_download (schedule_thumbnail e ?w2 (normalize_thumb ?w2 ?i2))
         (normalize_media_file (schedule_thumbnail e ?w2 (normalize_thumb ?w2 ?i2))
            (normalize_thumb ?w2 ?i2)),
       normalize_media_file (schedule_thumbnail e ?w2 (normalize_thumb ?w2 ?i2))
         (normalize_thumb ?w2 ?i2))"
    by (simp only: media_post_save_unfold [OF ms] Let_def recomputed_def changed_def)
  have a: "normalize_thumb ?w2 ?i2 = normalize_thumb w ?i2"
    by (rule normalize_thumb_cong) simp
  have b: "normalize_media_file ?w3 (normalize_thumb w ?i2)
             = normalize_media_file w (normalize_thumb w ?i2)"
    by (rule normalize_media_file_cong) simp
  show ?thesis by (simp only: raw a b)
qed

lemma media_post_save_instance:
  "\<not> manual_skip inst \<Longrightarrow>
   snd (media_post_save e created w inst) =
     normalize_media_file w (normalize_thumb w (recomputed e inst))"
  by (simp add: media_post_save_steps)

lemma get_media_metadata_task_corrective_save [simp]:
  "get_media_metadata_task (corrective_save ch w i) k = get_media_metadata_task w k"
  by (rule get_media_metadata_task_cong) simp

text \<open>The calls the rule makes, in order.\<close>

lemma media_post_save_trace:
  assumes ms: "\<not> manual_skip inst"
  shows "trace (fst (media_post_save e created w inst)) =
     trace w
     @ (if changed e inst then [Persist_media (recomputed e inst)] else [])
     @ (if wants_metadata w (recomputed e inst)
        then [Enqueue (metadata_job (recomputed e inst)) True] else [])
     @ (let i3 = normalize_thumb w (recomputed e inst) in
        if \<not> truthy (thumb i3) \<and> \<not> skip i3 \<and> truthy (thumbnail e i3)
        then [Enqueue (thumbnail_job i3 (the (thumbnail e i3))) True] else [])
     @ (let i4 = normalize_media_file w (normalize_thumb w (recomputed e inst)) in
        if \<not> downloaded i4 \<and> can_download i4 \<and> \<not> skip i4 \<and> download_media (source i4)
        then [Cancel ''sync.tasks.download_media'' [m_pk i4], Enqueue (download_job i4) True]
        else [])"
  by (simp only: media_post_save_steps [OF ms] Let_def fst_conv schedule_download_fields
      schedule_thumbnail_fields schedule_metadata_fields corrective_save_fields append_assoc
      wants_metadata_def get_media_metadata_task_corrective_save)

lemma pending_corrective_save [simp]: "pending (corrective_save ch w i) n as = pending w n as"
  by (rule pending_cong) simp

lemma pending_schedule_metadata:
  "pending (schedule_metadata w i) n as =
     (if wants_metadata w i \<and> n = ''sync.tasks.download_media_metadata'' \<and> as = [m_pk i]
      then [metadata_job i] else pending w n as)"
  by (auto simp: schedule_metadata_def wants_metadata_def download_media_metadata_def
      pending_enqueue same_key_def metadata_job_def)

lemma pending_schedule_thumbnail:
  "pending (schedule_thumbnail e w i) n as =
     (if wants_thumbnail e i \<and> n = ''sync.tasks.download_media_thumbnail''
         \<and> as = [m_pk i, the (thumbnail e i)]
      then [thumbnail_job i (the (thumbnail e i))] else pending w n as)"
  by (auto simp: schedule_thumbnail_def wants_thumbnail_def download_media_thumbnail_def
      pending_enqueue same_key_def thumbnail_job_def truthy_def split: option.splits)

lemma pending_schedule_download:
  "pending (schedule_download w i) n as =
     (if wants_download i \<and> n = ''sync.tasks.download_media'' \<and> as = [m_pk i]
      then [download_job i] else pending w n as)"
  by (auto simp: schedule_download_def wants_download_def download_media_task_def
      delete_task_by_media_def pending_enqueue pending_cancel same_key_def download_job_def)

lemma wants_metadata_corrective_save [simp]:
  "wants_metadata (corrective_save ch w i) inst = wants_metadata w inst"
  by (simp add: wants_metadata_def)

lemma wants_metadata_recomputed [simp]:
  "wants_metadata w (recomputed e inst) = wants_metadata w inst"
  by (auto simp: wants_metadata_def)

lemma metadata_job_recomputed [simp]: "metadata_job (recomputed e inst) = metadata_job inst"
  by (simp add: metadata_job_def)

lemma media_post_save_pending_metadata:
  assumes ms: "\<not> manual_skip inst"
  shows "pending (fst (media_post_save e created w inst))
           ''sync.tasks.download_media_metadata'' [m_pk inst] =
         (if wants_metadata w inst then [metadata_job inst]
          else pending w ''sync.tasks.download_media_metadata'' [m_pk inst])"
  by (simp add: media_post_save_steps [OF ms] pending_schedule_download pending_schedule_thumbnail
      pending_schedule_metadata)

lemma media_post_save_pending_download:
  assumes ms: "\<not> manual_skip inst"
  shows "pending (fst (media_post_save e created w inst)) ''sync.tasks.download_media'' [m_pk inst] =
         (if wants_download (snd (media_post_save e created w inst))
          then [download_job (snd (media_post_save e created w inst))]
          else pending w ''sync.tasks.download_media'' [m_pk inst])"
  by (simp add: media_post_save_steps [OF ms] pending_schedule_download pending_schedule_thumbnail
      pending_schedule_metadata)

lemma media_post_save_new_events:
  assumes ms: "\<not> manual_skip inst"
  shows "new_events w (fst (media_post_save e created w inst)) =
     (if changed e inst then [Persist_media (recomputed e inst)] else [])
     @ (if wants_metadata w inst then [Enqueue (metadata_job inst) True] else [])
     @ (if wants_thumbnail e (normalize_thumb w (recomputed e inst))
        then [Enqueue (thumbnail_job (normalize_thumb w (recomputed e inst))
                 (the (thumbnail e (normalize_thumb w (recomputed e inst))))) True] else [])
     @ (if wants_download (snd (media_post_save e created w inst))
        then [Cancel ''sync.tasks.download_media'' [m_pk inst],
              Enqueue (download_job (snd (media_post_save e created w inst))) True]
        else [])"
  by (rule new_events_append)
     (simp add: media_post_save_trace [OF ms] media_post_save_instance [OF ms] Let_def
       wants_thumbnail_def wants_download_def)

lemma new_events_same [simp]: "new_events w w = []"
  by (simp add: new_events_def)

lemma media_post_save_medias:
  "medias (fst (media_post_save e created w inst)) =
     (if \<not> manual_skip inst \<and> changed e inst
      then (medias w)(m_pk inst \<mapsto> recomputed e inst) else medias w)"
proof (cases "manual_skip inst")
  case True
  then show ?thesis by (simp add: media_post_save_def)
next
  case False
  then show ?thesis by (simp add: media_post_save_steps)
qed

lemma media_post_save_saved:
  "saved_media (new_events w (fst (media_post_save e created w inst))) =
     (if \<not> manual_skip inst \<and> changed e inst then [recomputed e inst] else [])"
proof (cases "manual_skip inst")
  case True
  then show ?thesis by (simp add: media_post_save_def)
next
  case False
  then show ?thesis by (simp add: media_post_save_new_events)
qed

lemma recomputed_frame:
  "recomputed e inst = inst\<lparr>skip := skip (recomputed e inst), can_download := can_download (recomputed e inst)\<rparr>"
  by (simp add: recomputed_def recompute_skip_eq recompute_can_download_eq)

lemma source_pre_save_eq:
  "source_pre_save w inst =
     (case sources w (s_pk inst) of
        None \<Rightarrow> w
      | Some existing_source \<Rightarrow>
          if index_schedule existing_source \<noteq> index_schedule inst
          then enqueue (index_job inst) True (cancel ''sync.tasks.index_source_task'' [s_pk inst] w)
          else w)"
  by (simp add: source_pre_save_def index_source_task_def index_job_def delete_task_by_source_def
      split: option.splits)

lemma source_pre_save_new_events:
  "new_events w (source_pre_save w inst) =
     (case sources w (s_pk inst) of
        None \<Rightarrow> []
      | Some existing_source \<Rightarrow>
          if index_schedule existing_source \<noteq> index_schedule inst
          then [Cancel ''sync.tasks.index_source_task'' [s_pk inst], Enqueue (index_job inst) True]
          else [])"
  by (rule new_events_append) (simp add: source_pre_save_eq split: option.splits)

lemma media_post_save_enqueued:
  assumes ms: "\<not> manual_skip inst"
  shows "enqueued (new_events w (fst (media_post_save e created w inst))) =
     (if wants_metadata w inst then [metadata_job inst] else [])
     @ (if wants_thumbnail e (normalize_thumb w (recomputed e inst))
        then [thumbnail_job (normalize_thumb w (recomputed e inst))
                 (the (thumbnail e (normalize_thumb w (recomputed e inst))))] else [])
     @ (if wants_download (snd (media_post_save e created w inst))
        then [download_job (snd (media_post_save e created w inst))] else [])"
  by (simp add: media_post_save_new_events [OF ms])

lemma job_names [simp]:
  "task_name (metadata_job i) = ''sync.tasks.download_media_metadata''"
  "task_name (thumbnail_job i u) = ''sync.tasks.download_media_thumbnail''"
  "task_name (download_job i) = ''sync.tasks.download_media''"
  "task_name (index_job s) = ''sync.tasks.index_source_task''"
  by (simp_all add: metadata_job_def thumbnail_job_def download_job_def index_job_def)

lemma job_priorities [simp]:
  "priority (metadata_job i) = 5"
  "priority (thumbnail_job i u) = 10"
  "priority (download_job i) = 15"
  "priority (index_job s) = 5"
  by (simp_all add: metadata_job_def thumbnail_job_def download_job_def index_job_def)

lemma media_post_save_instance_cases:
  "snd (media_post_save e created w inst) =
     (if manual_skip inst then inst
      else normalize_media_file w (normalize_thumb w (recomputed e inst)))"
proof (cases "manual_skip inst")
  case True
  then show ?thesis by (simp add: media_post_save_def)
next
  case False
  then show ?thesis by (simp add: media_post_save_instance)
qed

lemma media_post_save_kept_fields [simp]:
  "manual_skip (snd (media_post_save e created w inst)) = manual_skip inst"
  "m_pk (snd (media_post_save e created w inst)) = m_pk inst"
  "m_name (snd (media_post_save e created w inst)) = m_name inst"
  "metadata (snd (media_post_save e created w inst)) = metadata inst"
  "source (snd (media_post_save e created w inst)) = source inst"
  by (simp_all add: media_post_save_instance_cases)

lemma media_post_save_skip_no_metadata:
  "\<not> truthy (metadata inst) \<Longrightarrow> skip (snd (media_post_save e created w inst)) = skip inst"
  by (simp add: media_post_save_instance_cases)

lemma media_post_save_download_count:
  "length (pending w ''sync.tasks.download_media'' [m_pk inst]) \<le> 1 \<Longrightarrow>
   length (pending (fst (media_post_save e created w inst)) ''sync.tasks.download_media''
     [m_pk inst]) \<le> 1"
proof (cases "manual_skip inst")
  case True
  assume "length (pending w ''sync.tasks.download_media'' [m_pk inst]) \<le> 1"
  with True show ?thesis by (simp add: media_post_save_def)
next
  case False
  assume "length (pending w ''sync.tasks.download_media'' [m_pk inst]) \<le> 1"
  with False show ?thesis by (simp add: media_post_save_pending_download)
qed

lemma media_post_save_times_download_count:
  "length (pending (fst s) ''sync.tasks.download_media'' [m_pk (snd s)]) \<le> 1 \<Longrightarrow>
   length (pending (fst (media_post_save_times e n s)) ''sync.tasks.download_media''
     [m_pk (snd s)]) \<le> 1"
proof (induction n arbitrary: s)
  case 0
  then show ?case by simp
next
  case (Suc n)
  let ?s = "media_post_save e False (fst s) (snd s)"
  have "length (pending (fst ?s) ''sync.tasks.download_media'' [m_pk (snd ?s)]) \<le> 1"
    using media_post_save_download_count [OF Suc.prems, of e False] by simp
  from Suc.IH [OF this] show ?case by simp
qed

lemma media_post_save_priorities:
  "\<forall>t \<in> set (enqueued (new_events w (fst (media_post_save e created w inst)))). priority t \<le> 15"
proof (cases "manual_skip inst")
  case True
  then show ?thesis by (simp add: media_post_save_def)
next
  case False
  then show ?thesis by (auto simp: media_post_save_enqueued)
qed

lemma rule_frame_recomputed [simp]: "rule_frame (recomputed e inst) = rule_frame inst"
  by (simp add: rule_frame_def recomputed_def recompute_skip_eq recompute_can_download_eq)

lemma rule_frame_normalize_thumb [simp]: "rule_frame (normalize_thumb w inst) = rule_frame inst"
  by (simp add: rule_frame_def normalize_thumb_def)

lemma rule_frame_normalize_media_file [simp]:
  "rule_frame (normalize_media_file w inst) = rule_frame inst"
  by (simp add: rule_frame_def normalize_media_file_def)

lemma rule_frame_skip_update [simp]: "rule_frame (inst\<lparr>skip := v\<rparr>) = rule_frame inst"
  by (simp add: rule_frame_def)

lemma rule_frame_media_post_save [simp]:
  "rule_frame (snd (media_post_save e created w inst)) = rule_frame inst"
  by (simp add: media_post_save_instance_cases)

lemma changed_eq:
  "changed e inst =
     ((\<not> downloaded inst \<and> truthy (metadata inst) \<and> skip inst \<noteq> should_skip e inst)
      \<or> (truthy (metadata inst)
          \<and> can_download inst \<noteq> truthy (get_format_str e (fst (recompute_skip e inst)))))"
  by (simp add: changed_def recompute_skip_eq recompute_can_download_eq)



lemma rule_frame_recompute_skip [simp]: "rule_frame (fst (recompute_skip e inst)) = rule_frame inst"
  by (simp add: recompute_skip_eq)

lemma media_post_save_files [simp]:
  "files (fst (media_post_save e created w inst)) = files w"
proof (cases "manual_skip inst")
  case True
  then show ?thesis by (simp add: media_post_save_def)
next
  case False
  then show ?thesis by (simp add: media_post_save_steps)
qed






lemma saved_sources_append [simp]: "saved_sources (xs @ ys) = saved_sources xs @ saved_sources ys"
  by (induction xs rule: saved_sources.induct) simp_all

lemma persist_source_fields [simp]:
  "trace (persist_source w s) = trace w @ [Persist_source s]"
  "tasks (persist_source w s) = tasks w"
  "files (persist_source w s) = files w"
  "medias (persist_source w s) = medias w"
  "sources (persist_source w s) = (sources w)(s_pk s \<mapsto> s)"
  "mediaservers (persist_source w s) = mediaservers w"
  "media_post_save_connected (persist_source w s) = media_post_save_connected w"
  by (simp_all add: persist_source_def)

lemma source_pre_save_events:
  "\<exists>evs. trace (source_pre_save w s) = trace w @ evs \<and> saved_sources evs = []
         \<and> saved_media evs = []"
  by (simp add: source_pre_save_eq split: option.splits)

lemma source_pre_save_rows [simp]:
  "sources (source_pre_save w s) = sources w"
  "medias (source_pre_save w s) = medias w"
  by (simp_all add: source_pre_save_eq split: option.splits)

lemma source_post_save_events:
  "\<exists>evs. trace (source_post_save w s c) = trace w @ evs \<and> saved_sources evs = []
         \<and> saved_media evs = []"
  by (simp add: source_post_save_def Let_def check_source_directory_exists_def
      download_source_images_def save_all_media_for_source_def index_source_task_def
      delete_task_by_source_def)

lemma source_post_save_rows [simp]:
  "sources (source_post_save w s c) = sources w"
  "medias (source_post_save w s c) = medias w"
  by (simp_all add: source_post_save_def Let_def check_source_directory_exists_def
      download_source_images_def save_all_media_for_source_def index_source_task_def
      delete_task_by_source_def)

lemma Source_save_saved:
  "saved_sources (new_events w (Source_save w s)) = [s]
   \<and> saved_media (new_events w (Source_save w s)) = []
   \<and> sources (Source_save w s) (s_pk s) = Some s"
proof -
  let ?w1 = "source_pre_save w s"
  let ?w2 = "persist_source ?w1 s"
  obtain a where a: "trace ?w1 = trace w @ a" "saved_sources a = []" "saved_media a = []"
    using source_pre_save_events [of w s] by blast
  obtain b where b: "trace (source_post_save ?w2 s (sources w (s_pk s) = None))
      = trace ?w2 @ b" "saved_sources b = []" "saved_media b = []"
    using source_post_save_events [of ?w2 s] by blast
  have t: "trace (Source_save w s) = trace w @ (a @ [Persist_source s] @ b)"
    by (simp add: Source_save_def Let_def a b)
  have "new_events w (Source_save w s) = a @ [Persist_source s] @ b"
    using t by (rule new_events_append)
  then show ?thesis using a b by (simp add: Source_save_def Let_def)
qed

lemma Media_save_trace:
  "saved_media (new_events w (fst (Media_save e w m))) =
     m # (if media_post_save_connected w \<and> \<not> manual_skip m \<and> changed e m
          then [recomputed e m] else [])"
proof -
  let ?w1 = "persist_media w m"
  have ex: "\<exists>evs. trace (fst (media_post_save e c ?w1 m)) = trace ?w1 @ evs
            \<and> saved_media evs = (if \<not> manual_skip m \<and> changed e m then [recomputed e m] else [])"
    for c
  proof (cases "manual_skip m")
    case True
    then show ?thesis by (simp add: media_post_save_def)
  next
    case False
    then show ?thesis by (simp add: media_post_save_trace Let_def)
  qed
  show ?thesis
  proof (cases "media_post_save_connected w")
    case True
    obtain evs where evs: "trace (fst (media_post_save e (medias w (m_pk m) = None) ?w1 m))
        = trace ?w1 @ evs"
      "saved_media evs = (if \<not> manual_skip m \<and> changed e m then [recomputed e m] else [])"
      using ex by blast
    have "trace (fst (Media_save e w m)) = trace w @ ([Persist_media m] @ evs)"
      using True evs by (simp add: Media_save_def Let_def)
    then have "new_events w (fst (Media_save e w m)) = [Persist_media m] @ evs"
      by (rule new_events_append)
    then show ?thesis using True evs by simp
  next
    case False
    have "trace (fst (Media_save e w m)) = trace w @ [Persist_media m]"
      using False by (simp add: Media_save_def Let_def)
    then have "new_events w (fst (Media_save e w m)) = [Persist_media m]"
      by (rule new_events_append)
    then show ?thesis using False by simp
  qed
qed

lemma media_post_save_no_source:
  "\<exists>evs. trace (fst (media_post_save e c w m)) = trace w @ evs \<and> saved_sources evs = []"
proof (cases "manual_skip m")
  case True
  then show ?thesis by (simp add: media_post_save_def)
next
  case False
  then show ?thesis by (simp add: media_post_save_trace Let_def)
qed

lemma Media_save_no_source: "saved_sources (new_events w (fst (Media_save e w m))) = []"
proof -
  let ?w1 = "persist_media w m"
  obtain evs where evs: "trace (fst (media_post_save e (medias w (m_pk m) = None) ?w1 m))
        = trace ?w1 @ evs" "saved_sources evs = []"
    using media_post_save_no_source by blast
  have "trace (fst (Media_save e w m)) = trace w @
          ([Persist_media m] @ (if media_post_save_connected w then evs else []))"
    using evs by (simp add: Media_save_def Let_def)
  then have "new_events w (fst (Media_save e w m))
          = [Persist_media m] @ (if media_post_save_connected w then evs else [])"
    by (rule new_events_append)
  then show ?thesis using evs by simp
qed

lemma Media_save_row:
  "\<not> truthy (metadata m) \<Longrightarrow> medias (fst (Media_save e w m)) (m_pk m) = Some m"
  by (simp add: Media_save_def Let_def media_post_save_medias changed_eq)

lemma resolve_failed_check:
  "map_task_to_instance env_resolve world_both failed_check = Source_obj src0"
  by (simp add: env_resolve_def env0_def world_both_def world0_def failed_check_def)

lemma resolve_failed_metadata:
  "map_task_to_instance env_resolve world_both failed_metadata = Media_obj med0"
  by (simp add: env_resolve_def env0_def world_both_def world0_def failed_metadata_def
      metadata_job_def med0_def)

lemma splitext_brackets:
  "splitext ''/downloads/chan/Song [Live].mp4'' = (''/downloads/chan/Song [Live]'', ''.mp4'')"
  by (simp add: splitext_def Let_def)

lemma glob_brackets:
  "glob [''/downloads/chan/Song [Live].mp4'', ''/downloads/chan/Song [Live].en.vtt'',
         ''/downloads/chan/Song [Live].jpg''] ''/downloads/chan/Song [Live].*'' = []"
  by (simp add: glob_def component_match_def has_magic_def ishidden_def read_class_def in_class_def)

lemma delete_file_fields [simp]:
  "trace (delete_file f w) = trace w @ [Delete_file f]"
  "tasks (delete_file f w) = tasks w"
  "files (delete_file f w) = filter (\<lambda>x. x \<noteq> f) (files w)"
  "medias (delete_file f w) = medias w"
  "sources (delete_file f w) = sources w"
  by (simp_all add: delete_file_def)

lemma media_pre_delete_brackets:
  "media_pre_delete env0 world_brackets med_brackets
     = cancel ''sync.tasks.download_media'' [''m1''] world_brackets"
proof -
  have fs: "files world_brackets
      = [''/downloads/chan/Song [Live].mp4'', ''/downloads/chan/Song [Live].en.vtt'',
         ''/downloads/chan/Song [Live].jpg'']"
    by (simp add: world_brackets_def world0_def)
  have k: "m_pk med_brackets = ''m1''" "thumbnail env0 med_brackets = None"
    "delete_files_on_disk (source med_brackets)"
    "media_file med_brackets = Some ''/downloads/chan/Song [Live].mp4''"
    by (simp_all add: med_brackets_def med0_def env0_def src0_def)
  show ?thesis
    unfolding media_pre_delete_def Let_def delete_task_by_media_def
    by (simp add: k truthy_def splitext_brackets fs glob_brackets)
qed

lemma splitext_plain:
  "splitext ''/downloads/chan/Song.mp4'' = (''/downloads/chan/Song'', ''.mp4'')"
  by (simp add: splitext_def Let_def)

lemma glob_plain:
  "glob [''/downloads/chan/Song.mp4'', ''/downloads/chan/Song.en.vtt'',
         ''/downloads/chan/Song.jpg'', ''/downloads/chan/Songs.mp4''] ''/downloads/chan/Song.*''
     = [''/downloads/chan/Song.mp4'', ''/downloads/chan/Song.en.vtt'', ''/downloads/chan/Song.jpg'']"
  by (simp add: glob_def component_match_def has_magic_def ishidden_def read_class_def in_class_def)

text \<open>With a plain name the rule deletes the file and the files that share its stem.\<close>

lemma media_pre_delete_plain:
  "files (media_pre_delete env0 world_plain med_plain) = [''/downloads/chan/Songs.mp4'']
   \<and> new_events world_plain (media_pre_delete env0 world_plain med_plain)
       = [Cancel ''sync.tasks.download_media'' [''m1''],
          Delete_file ''/downloads/chan/Song.mp4'', Delete_file ''/downloads/chan/Song.en.vtt'',
          Delete_file ''/downloads/chan/Song.jpg'']"
proof -
  have fs: "files world_plain
      = [''/downloads/chan/Song.mp4'', ''/downloads/chan/Song.en.vtt'',
         ''/downloads/chan/Song.jpg'', ''/downloads/chan/Songs.mp4'']"
    by (simp add: world_plain_def world0_def)
  have k: "m_pk med_plain = ''m1''" "thumbnail env0 med_plain = None"
    "delete_files_on_disk (source med_plain)"
    "media_file med_plain = Some ''/downloads/chan/Song.mp4''"
    by (simp_all add: med_plain_def med0_def env0_def src0_def)
  have r: "media_pre_delete env0 world_plain med_plain
     = delete_file ''/downloads/chan/Song.jpg''
         (delete_file ''/downloads/chan/Song.en.vtt''
            (delete_file ''/downloads/chan/Song.mp4''
               (cancel ''sync.tasks.download_media'' [''m1''] world_plain)))"
    unfolding media_pre_delete_def Let_def delete_task_by_media_def
    by (simp add: k truthy_def splitext_plain fs glob_plain)
  have t: "trace (media_pre_delete env0 world_plain med_plain) = trace world_plain @
       [Cancel ''sync.tasks.download_media'' [''m1''],
          Delete_file ''/downloads/chan/Song.mp4'', Delete_file ''/downloads/chan/Song.en.vtt'',
          Delete_file ''/downloads/chan/Song.jpg'']"
    unfolding r by simp
  have "files (media_pre_delete env0 world_plain med_plain) = [''/downloads/chan/Songs.mp4'']"
    unfolding r by (simp add: world_plain_def world0_def)
  with new_events_append [OF t] show ?thesis by simp
qed

text \<open>The after-delete rule enqueues one rescan job for each MediaServer, priority 0,
  replacing a pending one.\<close>

lemma media_post_delete_fold:
  "trace (fold (\<lambda>ms. rescan_media_server (ms_pk ms) 0
                   (fmt ''Request media server rescan for '' (ms_str ms))) mss w)
     = trace w @ map (\<lambda>ms. Enqueue (rescan_job ms) True) mss"
  by (induction mss arbitrary: w) (simp_all add: rescan_media_server_def rescan_job_def)

lemma media_post_delete_rescans:
  "new_events w (media_post_delete w inst)
     = map (\<lambda>ms. Enqueue (rescan_job ms) True) (mediaservers w)"
  by (rule new_events_append) (simp add: media_post_delete_def media_post_delete_fold)

lemma fold_delete_file_fields [simp]:
  "trace (fold delete_file fs w) = trace w @ map Delete_file fs"
  "tasks (fold delete_file fs w) = tasks w"
  by (induction fs arbitrary: w) simp_all

text \<open>The calls of the before-delete rule: the download job of the item is cancelled, then
  its thumbnail job when the metadata yields a thumbnail URL, then the files that the
  pattern matches are deleted.\<close>

lemma media_pre_delete_trace:
  "trace (media_pre_delete e w inst) =
     trace w
     @ [Cancel ''sync.tasks.download_media'' [m_pk inst]]
     @ (if truthy (thumbnail e inst)
        then [Cancel ''sync.tasks.download_media_thumbnail'' [m_pk inst, the (thumbnail e inst)]]
        else [])
     @ map Delete_file
         (if delete_files_on_disk (source inst) \<and> (truthy (media_file inst) \<or> truthy (thumb inst))
          then glob (files w)
                 (fst (splitext (the (if truthy (media_file inst) then media_file inst
                                      else thumb inst))) @ ''.*'')
          else [])"
  by (auto simp: media_pre_delete_def Let_def delete_task_by_media_def truthy_def
      case_prod_beta split: option.splits)

lemma media_pre_delete_pending:
  "pending (media_pre_delete e w inst) ''sync.tasks.download_media'' [m_pk inst] = []
   \<and> (truthy (thumbnail e inst) \<longrightarrow>
        pending (media_pre_delete e w inst) ''sync.tasks.download_media_thumbnail''
          [m_pk inst, the (thumbnail e inst)] = [])"
  by (auto simp: media_pre_delete_def Let_def delete_task_by_media_def truthy_def
      case_prod_beta pending_def same_key_def filter_empty_conv split: option.splits)

lemma Media_save_stored:
  "medias (fst (Media_save e w m)) (m_pk m) =
     Some (if media_post_save_connected w \<and> \<not> manual_skip m \<and> changed e m
           then recomputed e m else m)"
  by (simp add: Media_save_def Let_def media_post_save_medias)

lemma Media_save_stored_skip:
  "skip (if media_post_save_connected w \<and> \<not> manual_skip (obj\<lparr>skip := True\<rparr>)
            \<and> changed e (obj\<lparr>skip := True\<rparr>)
         then recomputed e (obj\<lparr>skip := True\<rparr>) else obj\<lparr>skip := True\<rparr>)
     = (\<not> (media_post_save_connected w \<and> \<not> manual_skip obj \<and> \<not> downloaded obj
           \<and> truthy (metadata obj) \<and> \<not> should_skip e (obj\<lparr>skip := True\<rparr>)))"
  by (auto simp: changed_eq)

lemma resolve_failed_metadata_a:
  "map_task_to_instance env_resolve world_a failed_metadata = Media_obj med_a"
  by (simp add: env_resolve_def env0_def world_a_def world0_def failed_metadata_def
      metadata_job_def med0_def)

lemma failed_metadata_a_row:
  "map_option skip (medias (task_task_failed env_resolve world_a failed_metadata) ''m1'')
     = Some False"
proof -
  let ?m = "med_a\<lparr>skip := True\<rparr>"
  have tn: "task_name failed_metadata = ''sync.tasks.download_media_metadata''"
    by (simp add: failed_metadata_def)
  have W: "task_task_failed env_resolve world_a failed_metadata
             = fst (Media_save env_resolve world_a ?m)"
    by (simp add: task_task_failed_def resolve_failed_metadata_a tn)
  have k: "m_pk ?m = ''m1''" "\<not> manual_skip ?m" "media_post_save_connected world_a"
    by (simp_all add: med_a_def med0_def world_a_def world0_def)
  have c: "changed env_resolve ?m"
    by (simp add: changed_eq med_a_def med0_def env_resolve_def env0_def truthy_def)
  have r: "skip (recomputed env_resolve ?m) = False"
    by (simp add: med_a_def med0_def env_resolve_def env0_def truthy_def)
  show ?thesis
    unfolding W using Media_save_stored [of env_resolve world_a ?m] k c r by simp
qed

subsection \<open>The claims\<close>

text \<open>
  C1: for a Media item with \<open>manual_skip\<close> set the after-save rule stops at once. The
  instance is returned as it came (\<open>skip\<close> and \<open>can_download\<close> included), no row is
  written, the pending jobs are the same and no command at all is issued.
\<close>

theorem media_post_save_manual_skip:
  assumes "manual_skip inst"
  shows "media_post_save e created w inst = (w, inst)
    \<and> skip (snd (media_post_save e created w inst)) = skip inst
    \<and> can_download (snd (media_post_save e created w inst)) = can_download inst
    \<and> medias (fst (media_post_save e created w inst)) = medias w
    \<and> tasks (fst (media_post_save e created w inst)) = tasks w
    \<and> trace (fst (media_post_save e created w inst)) = trace w"
  using assms by (simp add: media_post_save_def)

theorem media_post_save_manual_skip_witness:
  "manual_skip (med0\<lparr>manual_skip := True\<rparr>)
   \<and> media_post_save env0 False world0 (med0\<lparr>manual_skip := True\<rparr>)
       = (world0, med0\<lparr>manual_skip := True\<rparr>)
   \<and> trace (fst (media_post_save env0 False world0 (med0\<lparr>manual_skip := True\<rparr>))) = []"
  using media_post_save_manual_skip [where inst = "med0\<lparr>manual_skip := True\<rparr>"
      and e = env0 and created = False and w = world0]
  by (simp add: world0_def)

text \<open>
  C2: for a Media item with \<open>manual_skip\<close> unset, after the rule: with metadata and a format
  string, \<open>can_download\<close> is true whatever it was; with metadata and no format string it
  is false; without metadata it is what it was. The format string is asked of the instance
  as lines 120-121 leave it.
\<close>

theorem media_post_save_can_download:
  assumes "\<not> manual_skip inst"
  shows "(truthy (metadata inst) \<and> truthy (get_format_str e (fst (recompute_skip e inst)))
            \<longrightarrow> can_download (snd (media_post_save e created w inst)))
       \<and> (truthy (metadata inst) \<and> \<not> truthy (get_format_str e (fst (recompute_skip e inst)))
            \<longrightarrow> \<not> can_download (snd (media_post_save e created w inst)))
       \<and> (\<not> truthy (metadata inst)
            \<longrightarrow> can_download (snd (media_post_save e created w inst)) = can_download inst)"
  using assms
  by (simp add: media_post_save_unfold Let_def recompute_can_download_eq recompute_skip_eq)

theorem media_post_save_can_download_witness:
  "\<not> manual_skip (med0\<lparr>metadata := Some ''{}''\<rparr>)
   \<and> truthy (metadata (med0\<lparr>metadata := Some ''{}''\<rparr>))
   \<and> truthy (get_format_str env0 (fst (recompute_skip env0 (med0\<lparr>metadata := Some ''{}''\<rparr>))))
   \<and> \<not> can_download (med0\<lparr>metadata := Some ''{}''\<rparr>)
   \<and> can_download (snd (media_post_save env0 False world0 (med0\<lparr>metadata := Some ''{}''\<rparr>)))"
  using media_post_save_can_download [where inst = "med0\<lparr>metadata := Some ''{}''\<rparr>"
      and e = env0 and created = False and w = world0]
  by (simp add: med0_def env0_def truthy_def)

text \<open>
  C10: the normalizations of the file references are made on the instance in memory only.
  The rule writes the row at most once, before the normalizations, and what it writes is
  the instance as it came with only \<open>skip\<close> and \<open>can_download\<close> recomputed; so the
  stored row keeps the \<open>thumb\<close>, \<open>media_file\<close> and \<open>downloaded\<close> it had, while the
  instance in memory has them reset when the file is not on disk.
\<close>

theorem media_post_save_normalization_in_memory_only:
  "(\<forall>m \<in> set (saved_media (new_events w (fst (media_post_save e created w inst)))).
       m = inst\<lparr>skip := skip m, can_download := can_download m\<rparr>
       \<and> thumb m = thumb inst \<and> media_file m = media_file inst \<and> downloaded m = downloaded inst)
   \<and> length (saved_media (new_events w (fst (media_post_save e created w inst)))) \<le> 1
   \<and> (medias w (m_pk inst) = Some inst \<longrightarrow>
        (\<exists>r. medias (fst (media_post_save e created w inst)) (m_pk inst) = Some r
           \<and> thumb r = thumb inst \<and> media_file r = media_file inst
           \<and> downloaded r = downloaded inst))
   \<and> (\<not> manual_skip inst \<and> \<not> thumb_file_exists w inst \<longrightarrow>
        thumb (snd (media_post_save e created w inst)) = None)
   \<and> (\<not> manual_skip inst \<and> \<not> media_file_exists w inst \<longrightarrow>
        media_file (snd (media_post_save e created w inst)) = None
        \<and> \<not> downloaded (snd (media_post_save e created w inst)))"
proof -
  have a: "\<forall>m \<in> set (saved_media (new_events w (fst (media_post_save e created w inst)))).
       m = inst\<lparr>skip := skip m, can_download := can_download m\<rparr>
       \<and> thumb m = thumb inst \<and> media_file m = media_file inst \<and> downloaded m = downloaded inst"
    using recomputed_frame [of e inst] by (simp add: media_post_save_saved)
  have b: "length (saved_media (new_events w (fst (media_post_save e created w inst)))) \<le> 1"
    by (simp add: media_post_save_saved)
  have c: "medias w (m_pk inst) = Some inst \<longrightarrow>
        (\<exists>r. medias (fst (media_post_save e created w inst)) (m_pk inst) = Some r
           \<and> thumb r = thumb inst \<and> media_file r = media_file inst
           \<and> downloaded r = downloaded inst)"
    by (simp add: media_post_save_medias)
  have d: "\<not> manual_skip inst \<and> \<not> thumb_file_exists w inst \<longrightarrow>
        thumb (snd (media_post_save e created w inst)) = None"
    by (simp add: media_post_save_instance)
  have f: "\<not> manual_skip inst \<and> \<not> media_file_exists w inst \<longrightarrow>
        media_file (snd (media_post_save e created w inst)) = None
        \<and> \<not> downloaded (snd (media_post_save e created w inst))"
    by (simp add: media_post_save_instance)
  from a b c d f show ?thesis by blast
qed

theorem media_post_save_normalization_in_memory_only_witness:
  "medias world_stale (m_pk med_stale) = Some med_stale
   \<and> \<not> manual_skip med_stale
   \<and> \<not> thumb_file_exists world_stale med_stale
   \<and> \<not> media_file_exists world_stale med_stale
   \<and> saved_media (new_events world_stale (fst (media_post_save env0 False world_stale med_stale)))
       = [med_stale\<lparr>can_download := True\<rparr>]
   \<and> thumb (snd (media_post_save env0 False world_stale med_stale)) = None
   \<and> media_file (snd (media_post_save env0 False world_stale med_stale)) = None
   \<and> \<not> downloaded (snd (media_post_save env0 False world_stale med_stale))
   \<and> map_option thumb (medias (fst (media_post_save env0 False world_stale med_stale)) ''m1'')
       = Some (Some ''/downloads/chan/clip.jpg'')
   \<and> map_option media_file (medias (fst (media_post_save env0 False world_stale med_stale)) ''m1'')
       = Some (Some ''/downloads/chan/clip.mp4'')
   \<and> map_option downloaded (medias (fst (media_post_save env0 False world_stale med_stale)) ''m1'')
       = Some True"
  using media_post_save_normalization_in_memory_only [where inst = med_stale and e = env0
      and created = False and w = world_stale]
  by (simp add: media_post_save_saved media_post_save_medias media_post_save_instance
      med_stale_def world_stale_def med0_def world0_def env0_def changed_def recomputed_def
      recompute_skip_eq recompute_can_download_eq truthy_def thumb_file_exists_def
      media_file_exists_def)




text \<open>
  C4 as amended: for a Media item with \<open>manual_skip\<close> unset, the rule enqueues the
  metadata job exactly when metadata is absent, \<open>skip\<close> is unset and no metadata job of
  the item is pending, and then it enqueues one (one-shot, replacing). Its priority is 5:
  the priority of the indexing job that \<open>source_pre_save\<close> enqueues, and below the 10 and
  15 of the thumbnail and download jobs of the same rule. After the run one metadata job
  is pending if it was enqueued, else what was pending before; and while metadata is
  absent a second run enqueues none.
\<close>

theorem media_post_save_metadata_job:
  assumes "\<not> manual_skip inst"
  shows "filter (\<lambda>t. task_name t = ''sync.tasks.download_media_metadata'')
           (enqueued (new_events w (fst (media_post_save e created w inst))))
         = (if \<not> truthy (metadata inst) \<and> \<not> skip inst
               \<and> \<not> get_media_metadata_task w (m_pk inst)
            then [metadata_job inst] else [])
     \<and> priority (metadata_job inst) = 5 \<and> repeat (metadata_job inst) = 0
     \<and> args (metadata_job inst) = [m_pk inst]
     \<and> (\<forall>t \<in> set (enqueued (new_events w (fst (media_post_save e created w inst)))).
           (task_name t = ''sync.tasks.download_media_thumbnail'' \<and> priority t = 10)
         \<or> (task_name t = ''sync.tasks.download_media'' \<and> priority t = 15)
         \<or> t = metadata_job inst)
     \<and> (\<forall>t \<in> set (enqueued (new_events ws (source_pre_save ws s))).
           task_name t = ''sync.tasks.index_source_task'' \<and> priority t = 5)
     \<and> pending (fst (media_post_save e created w inst))
           ''sync.tasks.download_media_metadata'' [m_pk inst]
         = (if \<not> truthy (metadata inst) \<and> \<not> skip inst
               \<and> \<not> get_media_metadata_task w (m_pk inst)
            then [metadata_job inst]
            else pending w ''sync.tasks.download_media_metadata'' [m_pk inst])
     \<and> (\<not> truthy (metadata inst) \<longrightarrow>
          filter (\<lambda>t. task_name t = ''sync.tasks.download_media_metadata'')
            (enqueued (new_events (fst (media_post_save e created w inst))
               (fst (media_post_save e again (fst (media_post_save e created w inst))
                       (snd (media_post_save e created w inst))))))
          = [])"
proof -
  let ?r = "media_post_save e created w inst"
  have a: "filter (\<lambda>t. task_name t = ''sync.tasks.download_media_metadata'')
           (enqueued (new_events w' (fst (media_post_save e c w' i))))
         = (if wants_metadata w' i then [metadata_job i] else [])" if "\<not> manual_skip i" for w' i c
    using that by (simp add: media_post_save_enqueued)
  have b: "\<forall>t \<in> set (enqueued (new_events w (fst ?r))).
           (task_name t = ''sync.tasks.download_media_thumbnail'' \<and> priority t = 10)
         \<or> (task_name t = ''sync.tasks.download_media'' \<and> priority t = 15)
         \<or> t = metadata_job inst"
    using assms by (auto simp: media_post_save_enqueued)
  have c: "\<forall>t \<in> set (enqueued (new_events ws (source_pre_save ws s))).
           task_name t = ''sync.tasks.index_source_task'' \<and> priority t = 5"
    by (simp add: source_pre_save_new_events split: option.splits)
  have d: "pending (fst ?r) ''sync.tasks.download_media_metadata'' [m_pk inst]
         = (if wants_metadata w inst then [metadata_job inst]
            else pending w ''sync.tasks.download_media_metadata'' [m_pk inst])"
    using assms by (rule media_post_save_pending_metadata)
  have f: "\<not> wants_metadata (fst ?r) (snd ?r)" if "\<not> truthy (metadata inst)"
    using that d
    by (auto simp: wants_metadata_def media_post_save_skip_no_metadata
        get_media_metadata_task_def split: if_splits)
  have g: "priority (metadata_job inst) = 5 \<and> repeat (metadata_job inst) = 0
     \<and> args (metadata_job inst) = [m_pk inst]"
    by (simp add: metadata_job_def)
  have h: "\<not> manual_skip (snd ?r)" using assms by simp
  have k: "\<not> truthy (metadata inst) \<longrightarrow>
          filter (\<lambda>t. task_name t = ''sync.tasks.download_media_metadata'')
            (enqueued (new_events (fst ?r) (fst (media_post_save e again (fst ?r) (snd ?r)))))
          = []"
    using a [OF h, of "fst ?r" again] f by simp
  show ?thesis
    using a [OF assms, of w created] b c d g k
    unfolding wants_metadata_def by blast
qed

text \<open>
  C4 fails as stated: the metadata job is not enqueued above routine indexing. The job the
  rule enqueues for an item without metadata and the indexing job of \<open>source_pre_save\<close>
  have the same priority.
\<close>

theorem media_post_save_metadata_job_counterexample:
  "\<not> manual_skip med0
   \<and> enqueued (new_events world0 (fst (media_post_save env0 True world0 med0)))
       = [metadata_job med0]
   \<and> enqueued (new_events world_src (source_pre_save world_src src_new)) = [index_job src_new]
   \<and> priority (metadata_job med0) = priority (index_job src_new)"
  by (simp add: media_post_save_enqueued source_pre_save_new_events wants_metadata_def
      wants_thumbnail_def wants_download_def media_post_save_instance
      get_media_metadata_task_def pending_def
      med0_def env0_def world0_def world_src_def src_new_def src0_def truthy_def)

theorem media_post_save_metadata_job_witness:
  "\<not> manual_skip med0
   \<and> filter (\<lambda>t. task_name t = ''sync.tasks.download_media_metadata'')
           (enqueued (new_events world0 (fst (media_post_save env0 True world0 med0))))
       = [metadata_job med0]
   \<and> pending (fst (media_post_save env0 True world0 med0))
           ''sync.tasks.download_media_metadata'' [''m1''] = [metadata_job med0]
   \<and> \<not> truthy (metadata med0)
   \<and> filter (\<lambda>t. task_name t = ''sync.tasks.download_media_metadata'')
            (enqueued (new_events (fst (media_post_save env0 True world0 med0))
               (fst (media_post_save env0 False (fst (media_post_save env0 True world0 med0))
                       (snd (media_post_save env0 True world0 med0))))))
       = []"
  using media_post_save_metadata_job [where inst = med0 and e = env0 and created = True
      and w = world0 and again = False and ws = world0 and s = src0]
  by (simp add: get_media_metadata_task_def pending_def med0_def world0_def truthy_def)

text \<open>
  C5: for a Media item with \<open>manual_skip\<close> unset, a media file that is not on disk makes
  the rule set \<open>downloaded\<close> false and \<open>media_file\<close> null. If the item then is not
  downloaded, may be downloaded, is not skipped and its Source downloads media, the last
  two calls of the rule cancel the download job of the item and enqueue one (queue the id
  of the Source, priority 15, the highest priority the rule gives), which is then the only
  pending one of its key; otherwise the pending download jobs of the key stay as they are.
  So a key with at most one pending download job has at most one after any number of runs.
\<close>

theorem media_post_save_download_job:
  assumes "\<not> manual_skip inst"
  shows "(\<not> media_file_exists w inst \<longrightarrow>
            \<not> downloaded (snd (media_post_save e created w inst))
            \<and> media_file (snd (media_post_save e created w inst)) = None)
     \<and> (\<not> downloaded (snd (media_post_save e created w inst))
          \<and> can_download (snd (media_post_save e created w inst))
          \<and> \<not> skip (snd (media_post_save e created w inst))
          \<and> download_media (source inst) \<longrightarrow>
            drop (length (new_events w (fst (media_post_save e created w inst))) - 2)
              (new_events w (fst (media_post_save e created w inst)))
              = [Cancel ''sync.tasks.download_media'' [m_pk inst],
                 Enqueue (download_job inst) True]
            \<and> filter (\<lambda>t. task_name t = ''sync.tasks.download_media'')
                 (enqueued (new_events w (fst (media_post_save e created w inst))))
               = [download_job inst]
            \<and> pending (fst (media_post_save e created w inst)) ''sync.tasks.download_media''
                 [m_pk inst] = [download_job inst])
     \<and> (\<not> (\<not> downloaded (snd (media_post_save e created w inst))
          \<and> can_download (snd (media_post_save e created w inst))
          \<and> \<not> skip (snd (media_post_save e created w inst))
          \<and> download_media (source inst)) \<longrightarrow>
            filter (\<lambda>t. task_name t = ''sync.tasks.download_media'')
                 (enqueued (new_events w (fst (media_post_save e created w inst)))) = []
            \<and> pending (fst (media_post_save e created w inst)) ''sync.tasks.download_media''
                 [m_pk inst] = pending w ''sync.tasks.download_media'' [m_pk inst])
     \<and> queue (download_job inst) = Some (s_pk (source inst))
     \<and> priority (download_job inst) = 15
     \<and> (\<forall>t \<in> set (enqueued (new_events w (fst (media_post_save e created w inst)))).
           priority t \<le> 15)
     \<and> (length (pending w ''sync.tasks.download_media'' [m_pk inst]) \<le> 1 \<longrightarrow>
           length (pending (fst (media_post_save_times e n (w, inst)))
             ''sync.tasks.download_media'' [m_pk inst]) \<le> 1)"
proof -
  let ?r = "media_post_save e created w inst"
  have j: "download_job (snd ?r) = download_job inst"
    by (simp add: download_job_def)
  have wd: "wants_download (snd ?r) =
      (\<not> downloaded (snd ?r) \<and> can_download (snd ?r) \<and> \<not> skip (snd ?r)
       \<and> download_media (source inst))"
    by (simp add: wants_download_def)
  have a: "\<not> media_file_exists w inst \<longrightarrow> \<not> downloaded (snd ?r) \<and> media_file (snd ?r) = None"
    using assms by (simp add: media_post_save_instance)
  have b: "drop (length (new_events w (fst ?r)) - 2) (new_events w (fst ?r))
              = [Cancel ''sync.tasks.download_media'' [m_pk inst], Enqueue (download_job inst) True]"
    if "wants_download (snd ?r)"
    using that assms by (simp add: media_post_save_new_events j)
  have c: "filter (\<lambda>t. task_name t = ''sync.tasks.download_media'')
                 (enqueued (new_events w (fst ?r)))
            = (if wants_download (snd ?r) then [download_job inst] else [])"
    using assms by (simp add: media_post_save_enqueued j)
  have d: "pending (fst ?r) ''sync.tasks.download_media'' [m_pk inst]
            = (if wants_download (snd ?r) then [download_job inst]
               else pending w ''sync.tasks.download_media'' [m_pk inst])"
    using assms by (simp add: media_post_save_pending_download j)
  have f: "queue (download_job inst) = Some (s_pk (source inst)) \<and> priority (download_job inst) = 15"
    by (simp add: download_job_def)
  have g: "length (pending w ''sync.tasks.download_media'' [m_pk inst]) \<le> 1 \<longrightarrow>
           length (pending (fst (media_post_save_times e n (w, inst)))
             ''sync.tasks.download_media'' [m_pk inst]) \<le> 1"
    using media_post_save_times_download_count [of "(w, inst)" e n] by simp
  show ?thesis
    using a b c d f g media_post_save_priorities [of w e created inst]
    unfolding wd by simp
qed

theorem media_post_save_download_job_witness:
  "\<not> manual_skip med_lost
   \<and> downloaded med_lost
   \<and> \<not> media_file_exists world_lost med_lost
   \<and> \<not> downloaded (snd (media_post_save env0 False world_lost med_lost))
   \<and> media_file (snd (media_post_save env0 False world_lost med_lost)) = None
   \<and> can_download (snd (media_post_save env0 False world_lost med_lost))
   \<and> \<not> skip (snd (media_post_save env0 False world_lost med_lost))
   \<and> download_media (source med_lost)
   \<and> new_events world_lost (fst (media_post_save env0 False world_lost med_lost))
       = [Cancel ''sync.tasks.download_media'' [''m1''], Enqueue (download_job med_lost) True]
   \<and> pending (fst (media_post_save env0 False world_lost med_lost)) ''sync.tasks.download_media''
        [''m1''] = [download_job med_lost]
   \<and> length (pending (fst (media_post_save_times env0 3 (world_lost, med_lost)))
             ''sync.tasks.download_media'' [''m1'']) \<le> 1"
  using media_post_save_download_job [where inst = med_lost and e = env0 and created = False
      and w = world_lost and n = 3]
  by (simp add: media_post_save_instance media_post_save_new_events wants_metadata_def
      wants_thumbnail_def wants_download_def changed_def recomputed_def recompute_skip_eq
      recompute_can_download_eq media_file_exists_def thumb_file_exists_def pending_def
      med_lost_def med_stale_def med0_def src0_def env0_def world_lost_def world0_def truthy_def)




text \<open>
  C7 as amended: when a job has failed for good and resolves to a Media item, the handler
  sets \<open>skip\<close> and saves the item exactly when the job is the metadata job: the first row
  written has \<open>skip\<close> set. That save runs the after-save rule, so the row that is stored
  in the end has \<open>skip\<close> set unless the receiver is connected and the item is not skipped
  by hand, not downloaded, has metadata and the filter engine does not want it skipped;
  then the rule resets \<open>skip\<close> and writes the row again. Without metadata the row is
  written once and keeps \<open>skip\<close>. For any other job of a Media item, and for a job that
  resolves to nothing, the handler does nothing. When the job resolves to a Source, the
  Source is written once with \<open>has_failed\<close> set, whatever the kind of the job.
\<close>

theorem task_task_failed_flags:
  "(map_task_to_instance e w t = Media_obj obj \<longrightarrow>
      (if task_name t = ''sync.tasks.download_media_metadata''
       then take 1 (saved_media (new_events w (task_task_failed e w t))) = [obj\<lparr>skip := True\<rparr>]
          \<and> saved_sources (new_events w (task_task_failed e w t)) = []
          \<and> (\<exists>r. medias (task_task_failed e w t) (m_pk obj) = Some r
                \<and> skip r = (\<not> (media_post_save_connected w \<and> \<not> manual_skip obj
                                  \<and> \<not> downloaded obj \<and> truthy (metadata obj)
                                  \<and> \<not> should_skip e (obj\<lparr>skip := True\<rparr>))))
          \<and> (\<not> truthy (metadata obj) \<longrightarrow>
                saved_media (new_events w (task_task_failed e w t)) = [obj\<lparr>skip := True\<rparr>]
                \<and> medias (task_task_failed e w t) (m_pk obj) = Some (obj\<lparr>skip := True\<rparr>))
       else task_task_failed e w t = w))
   \<and> (map_task_to_instance e w t = Source_obj src \<longrightarrow>
        saved_sources (new_events w (task_task_failed e w t)) = [src\<lparr>has_failed := True\<rparr>]
        \<and> saved_media (new_events w (task_task_failed e w t)) = []
        \<and> sources (task_task_failed e w t) (s_pk src) = Some (src\<lparr>has_failed := True\<rparr>))
   \<and> (map_task_to_instance e w t = No_obj \<longrightarrow> task_task_failed e w t = w)"
proof -
  let ?W = "task_task_failed e w t"
  have m1: "take 1 (saved_media (new_events w ?W)) = [obj\<lparr>skip := True\<rparr>]
          \<and> saved_sources (new_events w ?W) = []
          \<and> (\<exists>r. medias ?W (m_pk obj) = Some r
                \<and> skip r = (\<not> (media_post_save_connected w \<and> \<not> manual_skip obj
                                  \<and> \<not> downloaded obj \<and> truthy (metadata obj)
                                  \<and> \<not> should_skip e (obj\<lparr>skip := True\<rparr>))))
          \<and> (\<not> truthy (metadata obj) \<longrightarrow>
                saved_media (new_events w ?W) = [obj\<lparr>skip := True\<rparr>]
                \<and> medias ?W (m_pk obj) = Some (obj\<lparr>skip := True\<rparr>))"
    if "map_task_to_instance e w t = Media_obj obj"
       "task_name t = ''sync.tasks.download_media_metadata''"
  proof -
    have W: "?W = fst (Media_save e w (obj\<lparr>skip := True\<rparr>))"
      using that by (simp add: task_task_failed_def)
    have a: "take 1 (saved_media (new_events w ?W)) = [obj\<lparr>skip := True\<rparr>]"
      unfolding W by (simp add: Media_save_trace)
    have b: "saved_sources (new_events w ?W) = []"
      unfolding W by (rule Media_save_no_source)
    have c: "saved_media (new_events w ?W) = [obj\<lparr>skip := True\<rparr>]
                \<and> medias ?W (m_pk obj) = Some (obj\<lparr>skip := True\<rparr>)"
      if "\<not> truthy (metadata obj)"
      unfolding W using that Media_save_row [of "obj\<lparr>skip := True\<rparr>" e w]
      by (simp add: Media_save_trace changed_eq)
    have d: "\<exists>r. medias ?W (m_pk obj) = Some r
                \<and> skip r = (\<not> (media_post_save_connected w \<and> \<not> manual_skip obj
                                  \<and> \<not> downloaded obj \<and> truthy (metadata obj)
                                  \<and> \<not> should_skip e (obj\<lparr>skip := True\<rparr>)))"
      unfolding W
      using Media_save_stored [of e w "obj\<lparr>skip := True\<rparr>"] Media_save_stored_skip [of w obj e]
      by simp
    from a b c d show ?thesis by blast
  qed
  have m2: "?W = w"
    if "map_task_to_instance e w t = Media_obj obj"
       "task_name t \<noteq> ''sync.tasks.download_media_metadata''"
    using that by (simp add: task_task_failed_def)
  have s1: "saved_sources (new_events w ?W) = [src\<lparr>has_failed := True\<rparr>]
        \<and> saved_media (new_events w ?W) = []
        \<and> sources ?W (s_pk src) = Some (src\<lparr>has_failed := True\<rparr>)"
    if "map_task_to_instance e w t = Source_obj src"
  proof -
    have W: "?W = Source_save w (src\<lparr>has_failed := True\<rparr>)"
      using that by (simp add: task_task_failed_def)
    show ?thesis
      unfolding W using Source_save_saved [of w "src\<lparr>has_failed := True\<rparr>"] by simp
  qed
  have n: "?W = w" if "map_task_to_instance e w t = No_obj"
    using that by (simp add: task_task_failed_def)
  from m1 m2 s1 n show ?thesis by presburger
qed

text \<open>
  C7 fails as stated: a directory check that has failed for good resolves to its Source,
  and the handler sets \<open>has_failed\<close> on that Source and writes it, although the job is not
  the indexing job. And for an item with metadata that the filter engine does not want
  skipped, the save of the handler runs the after-save rule, which resets \<open>skip\<close>: the
  stored row ends with \<open>skip\<close> unset after a failed metadata job.
\<close>

theorem task_task_failed_flags_counterexample:
  "task_name failed_check \<noteq> ''sync.tasks.index_source_task''
   \<and> map_task_to_instance env_resolve world_both failed_check = Source_obj src0
   \<and> \<not> has_failed src0
   \<and> saved_sources (new_events world_both (task_task_failed env_resolve world_both failed_check))
       = [src0\<lparr>has_failed := True\<rparr>]
   \<and> map_option has_failed
        (sources (task_task_failed env_resolve world_both failed_check) ''s1'') = Some True
   \<and> map_task_to_instance env_resolve world_a failed_metadata = Media_obj med_a
   \<and> task_name failed_metadata = ''sync.tasks.download_media_metadata''
   \<and> map_option skip (medias (task_task_failed env_resolve world_a failed_metadata) ''m1'')
       = Some False"
proof -
  have W: "task_task_failed env_resolve world_both failed_check
             = Source_save world_both (src0\<lparr>has_failed := True\<rparr>)"
    by (simp add: task_task_failed_def resolve_failed_check)
  have k: "s_pk (src0\<lparr>has_failed := True\<rparr>) = ''s1''"
    by (simp add: src0_def)
  have a: "task_name failed_check \<noteq> ''sync.tasks.index_source_task''"
    by (simp add: failed_check_def)
  have b: "\<not> has_failed src0"
    by (simp add: src0_def)
  have tn: "task_name failed_metadata = ''sync.tasks.download_media_metadata''"
    by (simp add: failed_metadata_def)
  have src: "saved_sources (new_events world_both (task_task_failed env_resolve world_both failed_check))
       = [src0\<lparr>has_failed := True\<rparr>]
     \<and> map_option has_failed
        (sources (task_task_failed env_resolve world_both failed_check) ''s1'') = Some True"
    unfolding W
    using Source_save_saved [of world_both "src0\<lparr>has_failed := True\<rparr>"]
    by (simp add: k)
  from a b src resolve_failed_check resolve_failed_metadata_a tn failed_metadata_a_row
  show ?thesis by simp
qed

theorem task_task_failed_flags_witness:
  "map_task_to_instance env_resolve world_both failed_metadata = Media_obj med0
   \<and> task_name failed_metadata = ''sync.tasks.download_media_metadata''
   \<and> \<not> truthy (metadata med0)
   \<and> saved_media (new_events world_both (task_task_failed env_resolve world_both failed_metadata))
       = [med0\<lparr>skip := True\<rparr>]
   \<and> medias (task_task_failed env_resolve world_both failed_metadata) ''m1''
       = Some (med0\<lparr>skip := True\<rparr>)
   \<and> map_task_to_instance env_resolve world_both failed_check = Source_obj src0
   \<and> sources (task_task_failed env_resolve world_both failed_check) ''s1''
       = Some (src0\<lparr>has_failed := True\<rparr>)
   \<and> map_task_to_instance env_resolve world_both (failed_check\<lparr>args := []\<rparr>) = No_obj
   \<and> task_task_failed env_resolve world_both (failed_check\<lparr>args := []\<rparr>) = world_both"
proof -
  have n: "map_task_to_instance env_resolve world_both (failed_check\<lparr>args := []\<rparr>) = No_obj"
    by (simp add: env_resolve_def env0_def)
  have tn: "task_name failed_metadata = ''sync.tasks.download_media_metadata''"
    by (simp add: failed_metadata_def)
  have md: "\<not> truthy (metadata med0)"
    by (simp add: med0_def truthy_def)
  have k: "m_pk med0 = ''m1''" "s_pk src0 = ''s1''"
    by (simp_all add: med0_def src0_def)
  note f1 = task_task_failed_flags [of env_resolve world_both failed_metadata med0 src0]
  note f2 = task_task_failed_flags [of env_resolve world_both failed_check med0 src0]
  note f3 = task_task_failed_flags [of env_resolve world_both "failed_check\<lparr>args := []\<rparr>" med0 src0]
  have A: "saved_media (new_events world_both (task_task_failed env_resolve world_both failed_metadata))
       = [med0\<lparr>skip := True\<rparr>]
     \<and> medias (task_task_failed env_resolve world_both failed_metadata) ''m1''
       = Some (med0\<lparr>skip := True\<rparr>)"
    using f1 resolve_failed_metadata tn md by (simp add: k)
  have B: "sources (task_task_failed env_resolve world_both failed_check) ''s1''
       = Some (src0\<lparr>has_failed := True\<rparr>)"
    using f2 resolve_failed_check by (simp add: k)
  have C: "task_task_failed env_resolve world_both (failed_check\<lparr>args := []\<rparr>) = world_both"
    using f3 n by simp
  from A B C resolve_failed_metadata resolve_failed_check n tn md show ?thesis by simp
qed

text \<open>
  C9 as amended: the guard is the connection of the receiver itself, which is one for all
  Media items. The corrective save of the rule is: disconnect, write the row, connect. A
  save of any Media item made in a world where the receiver is disconnected (after the
  disconnect, or after the write and before the connect) writes the row of that item and
  does not run the rule for it; a save made after the rule has connected the receiver
  again runs the full rule.
\<close>

theorem corrective_save_guard_is_global:
  "corrective_save True w inst = post_save_connect (persist_media (post_save_disconnect w) inst)
   \<and> Media_save e (post_save_disconnect w) other
       = (persist_media (post_save_disconnect w) other, other)
   \<and> Media_save e (persist_media (post_save_disconnect w) inst) other
       = (persist_media (persist_media (post_save_disconnect w) inst) other, other)
   \<and> Media_save e (corrective_save True w inst) other
       = media_post_save e (medias (corrective_save True w inst) (m_pk other) = None)
           (persist_media (corrective_save True w inst) other) other"
  by (simp add: corrective_save_def Media_save_def Let_def)

text \<open>
  C9 fails as stated: while the rule saves \<open>med_a\<close> (the receiver is disconnected), a save
  of the other item \<open>med_b\<close> enqueues nothing, although the rule, had it run for \<open>med_b\<close>,
  would have enqueued its metadata job.
\<close>

theorem corrective_save_guard_is_global_counterexample:
  "m_pk med_b \<noteq> m_pk med_a
   \<and> \<not> manual_skip med_a \<and> changed env0 med_a
   \<and> enqueued (new_events (post_save_disconnect world0)
         (fst (Media_save env0 (post_save_disconnect world0) med_b))) = []
   \<and> tasks (fst (Media_save env0 (post_save_disconnect world0) med_b)) = []
   \<and> enqueued (new_events (persist_media (post_save_disconnect world0) med_b)
         (fst (media_post_save env0 True (persist_media (post_save_disconnect world0) med_b) med_b)))
       = [metadata_job med_b]"
proof -
  have a: "m_pk med_b \<noteq> m_pk med_a \<and> \<not> manual_skip med_a"
    by (simp add: med_a_def med_b_def med0_def)
  have b: "changed env0 med_a"
    by (simp add: changed_eq recompute_skip_eq med_a_def med0_def env0_def truthy_def)
  have c: "Media_save env0 (post_save_disconnect world0) med_b
             = (persist_media (post_save_disconnect world0) med_b, med_b)"
    by (simp add: Media_save_def Let_def)
  have d: "new_events (post_save_disconnect world0) (persist_media (post_save_disconnect world0) med_b)
             = [Persist_media med_b]"
    by (rule new_events_append) simp
  have f: "tasks (persist_media (post_save_disconnect world0) med_b) = []"
    by (simp add: world0_def)
  have nm: "\<not> manual_skip med_b"
    by (simp add: med_b_def med0_def)
  have g: "enqueued (new_events (persist_media (post_save_disconnect world0) med_b)
         (fst (media_post_save env0 True (persist_media (post_save_disconnect world0) med_b) med_b)))
       = [metadata_job med_b]"
  proof -
    let ?w = "persist_media (post_save_disconnect world0) med_b"
    have wm: "wants_metadata ?w med_b"
      by (simp add: wants_metadata_def get_media_metadata_task_def pending_def world0_def
          med_b_def med0_def truthy_def)
    have wt: "\<not> wants_thumbnail env0 (normalize_thumb ?w (recomputed env0 med_b))"
      by (simp add: wants_thumbnail_def env0_def truthy_def)
    have wd: "\<not> wants_download (snd (media_post_save env0 True ?w med_b))"
      unfolding media_post_save_instance [OF nm]
      by (simp add: wants_download_def med_b_def med0_def truthy_def)
    show ?thesis
      by (simp only: media_post_save_enqueued [OF nm] wm wt wd if_True if_False append_Nil2)
  qed
  from a b d f g show ?thesis by (simp add: c)
qed

text \<open>
  C8, at an item whose file name has a bracketed part: the before-delete rule cancels the
  download job and then asks for the files that match the bare path followed by
  \<^verbatim>\<open>.*\<close>. The brackets of the name are read as a character class, no file on disk
  matches, and the media file and the files that share its stem all stay on disk.
\<close>

theorem media_pre_delete_bracketed_name:
  "delete_files_on_disk (source med_brackets)
   \<and> media_file med_brackets = Some ''/downloads/chan/Song [Live].mp4''
   \<and> new_events world_brackets (media_pre_delete env0 world_brackets med_brackets)
       = [Cancel ''sync.tasks.download_media'' [''m1'']]
   \<and> files (media_pre_delete env0 world_brackets med_brackets)
       = [''/downloads/chan/Song [Live].mp4'', ''/downloads/chan/Song [Live].en.vtt'',
          ''/downloads/chan/Song [Live].jpg'']"
proof -
  have t: "trace (media_pre_delete env0 world_brackets med_brackets)
       = trace world_brackets @ [Cancel ''sync.tasks.download_media'' [''m1'']]"
    unfolding media_pre_delete_brackets by simp
  have f: "files (media_pre_delete env0 world_brackets med_brackets)
       = [''/downloads/chan/Song [Live].mp4'', ''/downloads/chan/Song [Live].en.vtt'',
          ''/downloads/chan/Song [Live].jpg'']"
    unfolding media_pre_delete_brackets by (simp add: world_brackets_def world0_def)
  have k: "delete_files_on_disk (source med_brackets)
     \<and> media_file med_brackets = Some ''/downloads/chan/Song [Live].mp4''"
    by (simp add: med_brackets_def med0_def src0_def)
  from new_events_append [OF t] f k show ?thesis by simp
qed

end
